theory Spec2Isabelle
  imports Complex_Main
begin

section \<open>Numbers and vectors\<close>

text \<open>
  The kernel \<^verbatim>\<open>FVNavStokesPredictor_p\<close> computes with \<^verbatim>\<open>ADReal\<close>, a double that
  carries derivatives. The embedding keeps the value part and reads it as a real number, so
  the arithmetic below is exact; rounding and the derivative vector are outside the model.
  A division whose divisor the source asserts to be nonzero is an explicit error branch.

  \<^verbatim>\<open>VectorValue<ADReal>\<close> and \<^verbatim>\<open>Point\<close> have \<^verbatim>\<open>LIBMESH_DIM = 3\<close> components.
\<close>

datatype VectorValue = Vec real real real

text \<open>
  \<^verbatim>\<open>v(i)\<close>, read. Only the indices 0, 1 and 2 exist; the kernel's loops run over
  \<^verbatim>\<open>make_range(_dim)\<close> with \<^verbatim>\<open>_dim\<close> the dimension of the mesh, which is at most 3, and
  its other accesses use the literals 0, 1 and 2. The statements below speak of the
  components \<open>i < 3\<close> only.
\<close>

fun component :: "VectorValue \<Rightarrow> nat \<Rightarrow> real" where
  "component (Vec a b c) i = (if i = 0 then a else if i = 1 then b else if i = 2 then c else 0)"

text \<open>\<^verbatim>\<open>v(i) = x\<close>, written.\<close>

fun assign :: "VectorValue \<Rightarrow> nat \<Rightarrow> real \<Rightarrow> VectorValue" where
  "assign (Vec a b c) i x =
     (if i = 0 then Vec x b c else if i = 1 then Vec a x c else if i = 2 then Vec a b x
      else Vec a b c)"

text \<open>\<^verbatim>\<open>VectorValue<ADReal> v = 0\<close>, and the constructor from one scalar, which fills the
  first component and zeroes the others.\<close>

definition zero_vec :: VectorValue where
  "zero_vec = Vec 0 0 0"

definition from_x :: "real \<Rightarrow> VectorValue" where
  "from_x x = Vec x 0 0"

text \<open>\<^verbatim>\<open>a * b\<close> on two vectors is the dot product; a scalar times a vector scales it.\<close>

fun dot :: "VectorValue \<Rightarrow> VectorValue \<Rightarrow> real" where
  "dot (Vec a b c) (Vec x y z) = a * x + b * y + c * z"

fun scale :: "real \<Rightarrow> VectorValue \<Rightarrow> VectorValue" where
  "scale s (Vec a b c) = Vec (s * a) (s * b) (s * c)"

fun plus_vec :: "VectorValue \<Rightarrow> VectorValue \<Rightarrow> VectorValue" where
  "plus_vec (Vec a b c) (Vec x y z) = Vec (a + x) (b + y) (c + z)"

fun minus_vec :: "VectorValue \<Rightarrow> VectorValue \<Rightarrow> VectorValue" where
  "minus_vec (Vec a b c) (Vec x y z) = Vec (a - x) (b - y) (c - z)"

fun neg_vec :: "VectorValue \<Rightarrow> VectorValue" where
  "neg_vec (Vec a b c) = Vec (- a) (- b) (- c)"

definition norm_vec :: "VectorValue \<Rightarrow> real" where
  "norm_vec v = sqrt (dot v v)"

text \<open>
  The loop \<^verbatim>\<open>for (const auto i : make_range(n)) v(i) += f(i);\<close> and its
  subtracting twin.
\<close>

definition add_range :: "nat \<Rightarrow> (nat \<Rightarrow> real) \<Rightarrow> VectorValue \<Rightarrow> VectorValue" where
  "add_range n f v = foldl (\<lambda>c i. assign c i (component c i + f i)) v [0..<n]"

definition sub_range :: "nat \<Rightarrow> (nat \<Rightarrow> real) \<Rightarrow> VectorValue \<Rightarrow> VectorValue" where
  "sub_range n f v = foldl (\<lambda>c i. assign c i (component c i - f i)) v [0..<n]"

text \<open>The loop \<^verbatim>\<open>for (const auto i : make_range(n)) v(i) = f(i);\<close>.\<close>

definition set_range :: "nat \<Rightarrow> (nat \<Rightarrow> real) \<Rightarrow> VectorValue \<Rightarrow> VectorValue" where
  "set_range n f v = foldl (\<lambda>c i. assign c i (f i)) v [0..<n]"

section \<open>Mesh data\<close>

type_synonym BoundaryID = int
type_synonym SubdomainID = nat

text \<open>A cell. The source identifies it by its address; the model by its id (\<^verbatim>\<open>elem.id()\<close>).\<close>

record Elem =
  elem_id :: nat
  subdomain_id :: SubdomainID

text \<open>
  \<^verbatim>\<open>FaceInfo\<close>: the fields the kernel reads. \<^verbatim>\<open>boundaryIDs\<close> is a
  \<^verbatim>\<open>std::set\<close>, iterated in ascending order; the list holds it in iteration order.
  \<^verbatim>\<open>gC\<close> is the geometric interpolation weight of the face.
\<close>

record FaceInfo =
  elem :: Elem
  neighborPtr :: "Elem option"
  normal :: VectorValue
  faceArea :: real
  faceCentroid :: VectorValue
  elemCentroid :: VectorValue
  neighborCentroid :: VectorValue
  elemVolume :: real
  neighborVolume :: real
  boundaryIDs :: "BoundaryID list"
  gC :: real

text \<open>
  What \<^verbatim>\<open>Moose::FV::loopOverElemFaceInfo\<close> hands to the functor for one face of a cell.
\<close>

record FunctorArgs =
  functor_elem :: Elem
  neighbor :: "Elem option"
  fi :: FaceInfo
  surface_vector :: VectorValue
  coord :: real
  elem_has_info :: bool

section \<open>The kernel object\<close>

datatype InterpMethod = Average | RhieChow

datatype CoordinateSystemType = COORD_XYZ | COORD_RZ | COORD_RSPHERICAL

text \<open>A finite-volume velocity variable: the three accessors the kernel calls.\<close>

record INSFVVelocityVariable =
  getElemValue :: "Elem \<Rightarrow> real"
  getBoundaryFaceValue :: "FaceInfo \<Rightarrow> real"
  getNeighborValue :: "Elem option \<Rightarrow> FaceInfo \<Rightarrow> real \<Rightarrow> real"

record INSFVPressureVariable =
  adGradSln :: "FaceInfo \<Rightarrow> VectorValue"
  uncorrectedAdGradSln :: "FaceInfo \<Rightarrow> VectorValue"

text \<open>
  The members of \<^verbatim>\<open>FVNavStokesPredictor_p\<close> (the leading underscore of a member name
  is dropped) and the framework services it calls, which are not part of the repository and
  are taken as parameters:
  \<^item> \<^verbatim>\<open>NDEBUG\<close>: whether the build drops \<^verbatim>\<open>mooseAssert\<close>;
  \<^item> \<^verbatim>\<open>TOLERANCE\<close>: \<^verbatim>\<open>libMesh::TOLERANCE\<close>;
  \<^item> \<^verbatim>\<open>mu\<close>, \<^verbatim>\<open>rho\<close>: the functors at a face (central difference), and
    \<^verbatim>\<open>mu_elem_face\<close>, \<^verbatim>\<open>mu_neighbor_face\<close>: \<^verbatim>\<open>_mu(elemFromFace())\<close> and
    \<^verbatim>\<open>_mu(neighborFromFace())\<close>;
  \<^item> \<^verbatim>\<open>vel_elem_face\<close>, \<^verbatim>\<open>vel_neighbor_face\<close>, \<^verbatim>\<open>adv_quant_elem_face\<close>,
    \<^verbatim>\<open>adv_quant_neighbor_face\<close>: \<^verbatim>\<open>_vel\<close> and \<^verbatim>\<open>_adv_quant\<close> on either side;
  \<^item> \<^verbatim>\<open>interpCoeffs\<close>: \<^verbatim>\<open>Moose::FV::interpCoeffs(_advected_interp_method, fi,
    one_is_elem, advector)\<close>;
  \<^item> \<^verbatim>\<open>interpolate_advected\<close>: \<^verbatim>\<open>Moose::FV::interpolate(_advected_interp_method,
    result, value1, value2, advector, fi, one_is_elem)\<close>;
  \<^item> \<^verbatim>\<open>gradUDotNormal\<close>, \<^verbatim>\<open>onBoundary\<close>, \<^verbatim>\<open>hasBlocks\<close>,
    \<^verbatim>\<open>getCoordSystem\<close>, \<^verbatim>\<open>coordTransformFactor\<close>;
  \<^item> \<^verbatim>\<open>var_getFluxBCs\<close>, \<^verbatim>\<open>var_getDirichletBC\<close>: the \<^verbatim>\<open>first\<close> of the pair
    \<^verbatim>\<open>_var.getFluxBCs(fi)\<close> and \<^verbatim>\<open>_var.getDirichletBC(fi)\<close> return;
  \<^item> \<^verbatim>\<open>elemFaceInfo\<close>: the faces \<^verbatim>\<open>loopOverElemFaceInfo\<close> visits for a cell, in
    its order.
\<close>

record Kernel =
  name :: string
  app :: nat
  tid :: nat
  dim :: nat
  NDEBUG :: bool
  TOLERANCE :: real
  u_var :: INSFVVelocityVariable
  v_var :: "INSFVVelocityVariable option"
  w_var :: "INSFVVelocityVariable option"
  p_var :: INSFVPressureVariable
  mu :: "FaceInfo \<Rightarrow> real"
  rho :: "FaceInfo \<Rightarrow> real"
  mu_elem_face :: "FaceInfo \<Rightarrow> real"
  mu_neighbor_face :: "FaceInfo \<Rightarrow> real"
  vel_elem_face :: "FaceInfo \<Rightarrow> VectorValue"
  vel_neighbor_face :: "FaceInfo \<Rightarrow> VectorValue"
  adv_quant_elem_face :: "FaceInfo \<Rightarrow> real"
  adv_quant_neighbor_face :: "FaceInfo \<Rightarrow> real"
  interpCoeffs :: "FaceInfo \<Rightarrow> bool \<Rightarrow> VectorValue \<Rightarrow> real \<times> real"
  interpolate_advected :: "real \<Rightarrow> real \<Rightarrow> VectorValue \<Rightarrow> FaceInfo \<Rightarrow> bool \<Rightarrow> real"
  gradUDotNormal :: "FaceInfo \<Rightarrow> real"
  onBoundary :: "FaceInfo \<Rightarrow> bool"
  hasBlocks :: "SubdomainID \<Rightarrow> bool"
  getCoordSystem :: "SubdomainID \<Rightarrow> CoordinateSystemType"
  coordTransformFactor :: "SubdomainID \<Rightarrow> VectorValue \<Rightarrow> real"
  var_getFluxBCs :: "FaceInfo \<Rightarrow> bool"
  var_getDirichletBC :: "FaceInfo \<Rightarrow> bool"
  elemFaceInfo :: "Elem \<Rightarrow> FunctorArgs list"
  velocity_interp_method :: InterpMethod
  flow_boundaries :: "BoundaryID set"
  fully_developed_flow_boundaries :: "BoundaryID set"
  no_slip_wall_boundaries :: "BoundaryID set"
  slip_wall_boundaries :: "BoundaryID set"
  symmetry_boundaries :: "BoundaryID set"
  all_boundaries :: "BoundaryID set"

section \<open>Errors\<close>

text \<open>
  Each \<^verbatim>\<open>mooseAssert\<close> of the source, by the place it stands. An assertion aborts a
  debug build and is absent from a build with \<^verbatim>\<open>NDEBUG\<close>.
\<close>

datatype assertion =
    AllFullyDeveloped
  | NoneFullyDeveloped
  | CoeffsStructureExists
  | ThreadIdInRange
  | NewInsertion
  | ElemsMatch
  | ElemIsOnFace
  | NormalIsSurfaceVector
  | NeighborIsOnFace
  | OnlyFlowBoundaries
  | OnInternalFace
  | SameCoordSystem
  | NotDividingByZero

text \<open>
  Operations that C++ gives no meaning, and the quotient by zero, which is infinite or not a
  number in the source's arithmetic and no real number.
\<close>

datatype undefined_operation =
    ReadThroughEndIterator
  | ReadThroughNullPointer
  | IndexPastTheEnd
  | QuotientByZero

text \<open>
  \<^item> \<open>NotCompletelyBounded n b\<close>: the \<^verbatim>\<open>mooseError\<close> of the coefficient calculator;
    its message is built from \<^verbatim>\<open>this->name()\<close> and \<^verbatim>\<open>*fi->boundaryIDs().begin()\<close>
    and from nothing else.
  \<^item> \<open>AssertionFailure a\<close>: a failed \<^verbatim>\<open>mooseAssert\<close>.
  \<^item> \<open>Undefined u\<close>: the source reached the operation \<open>u\<close>.
\<close>

datatype error =
    NotCompletelyBounded string BoundaryID
  | AssertionFailure assertion
  | Undefined undefined_operation

definition mooseAssert :: "Kernel \<Rightarrow> bool \<Rightarrow> assertion \<Rightarrow> (error + 'a) \<Rightarrow> error + 'a" where
  "mooseAssert k cond a rest = (if \<not> NDEBUG k \<and> \<not> cond then Inl (AssertionFailure a) else rest)"

text \<open>
  An assertion that guards an operation without meaning: when the condition fails, a debug
  build stops at the assertion and any other build reaches the operation.
\<close>

definition violated :: "Kernel \<Rightarrow> assertion \<Rightarrow> undefined_operation \<Rightarrow> error + 'a" where
  "violated k a u = (if NDEBUG k then Inl (Undefined u) else Inl (AssertionFailure a))"

definition required ::
  "Kernel \<Rightarrow> bool \<Rightarrow> assertion \<Rightarrow> undefined_operation \<Rightarrow> (error + 'a) \<Rightarrow> error + 'a" where
  "required k cond a u rest = (if cond then rest else violated k a u)"

section \<open>Framework interpolation\<close>


definition interpolate_Average :: "VectorValue \<Rightarrow> VectorValue \<Rightarrow> FaceInfo \<Rightarrow> bool \<Rightarrow> VectorValue" where
  "interpolate_Average value1 value2 f one_is_elem =
     (if one_is_elem then plus_vec (scale (gC f) value1) (scale (1 - gC f) value2)
      else plus_vec (scale (1 - gC f) value1) (scale (gC f) value2))"

section \<open>The coefficient calculator\<close>

text \<open>
  The pattern \<^verbatim>\<open>ADRealVectorValue x(u(...)); if (_v_var) x(1) = v(...);
  if (_w_var) x(2) = w(...);\<close>, with \<open>g i var\<close> the value read from the variable of
  component \<open>i\<close>.
\<close>

definition gather :: "Kernel \<Rightarrow> (nat \<Rightarrow> INSFVVelocityVariable \<Rightarrow> real) \<Rightarrow> VectorValue" where
  "gather k g =
     (let x = from_x (g 0 (u_var k));
          x = (case v_var k of None \<Rightarrow> x | Some v \<Rightarrow> assign x 1 (g 1 v));
          x = (case w_var k of None \<Rightarrow> x | Some w \<Rightarrow> assign x 2 (g 2 w))
      in x)"

text \<open>
  The debug check that the normal is the surface vector over \<^verbatim>\<open>faceArea * coord\<close>, in
  each of the three components, within \<^verbatim>\<open>TOLERANCE\<close> (\<^verbatim>\<open>absoluteFuzzyEqual\<close> compares
  the absolute difference with the tolerance). The quotient needs a nonzero divisor.
\<close>

definition normal_is_surface_vector :: "Kernel \<Rightarrow> FunctorArgs \<Rightarrow> VectorValue \<Rightarrow> bool" where
  "normal_is_surface_vector k a nrm =
     list_all (\<lambda>i. coord a = 0 \<or>
                  (faceArea (fi a) * coord a \<noteq> 0 \<and>
                   \<bar>component nrm i - component (surface_vector a) i / (faceArea (fi a) * coord a)\<bar>
                     \<le> TOLERANCE k))
       [0..<3]"

text \<open>
  The source divides by distances without a guard. Where the divisor is zero the quotient is
  no real number (the source's arithmetic gives an infinity or a NaN and goes on with it);
  the model stops there. \<open>quotient_defined ok r\<close> is \<open>r\<close> when every divisor that was used
  is nonzero.
\<close>

definition quotient_defined :: "bool \<Rightarrow> 'a \<Rightarrow> error + 'a" where
  "quotient_defined ok r = (if ok then Inr r else Inl (Undefined QuotientByZero))"

text \<open>
  The loop over \<^verbatim>\<open>fi->boundaryIDs()\<close> inside the functor. \<open>Some r\<close>: a branch matched and
  the functor returned there, \<open>r\<close> being the coefficient it left (or the quotient by zero it
  met); \<open>None\<close>: the loop ran to its end. The wall and symmetry branches divide inside the
  loop over the components, hence only when there is a component; the flow branch
  divides when the boundary is not fully developed.
\<close>

fun boundary_ids_loop ::
  "Kernel \<Rightarrow> FunctorArgs \<Rightarrow> VectorValue \<Rightarrow> VectorValue \<Rightarrow> real \<Rightarrow> real \<Rightarrow>
   BoundaryID list \<Rightarrow> VectorValue \<Rightarrow> (error + VectorValue) option" where
  "boundary_ids_loop k a nrm rc_centroid face_mu face_rho [] coeff = None"
| "boundary_ids_loop k a nrm rc_centroid face_mu face_rho (bc_id # rest) coeff =
     (if bc_id \<in> no_slip_wall_boundaries k then
        Some (quotient_defined
               (dim k = 0 \<or> \<bar>dot (minus_vec (faceCentroid (fi a)) rc_centroid) nrm\<bar> \<noteq> 0)
               (add_range (dim k)
                 (\<lambda>i. face_mu * norm_vec (surface_vector a) /
                        \<bar>dot (minus_vec (faceCentroid (fi a)) rc_centroid) nrm\<bar> *
                        (1 - component nrm i * component nrm i))
                 coeff))
      else if bc_id \<in> slip_wall_boundaries k then Some (Inr coeff)
      else if bc_id \<in> flow_boundaries k then
        (let face_velocity = gather k (\<lambda>i var. getBoundaryFaceValue var (fi a));
             advection_coeffs = interpCoeffs k (fi a) (elem_has_info a) face_velocity;
             temp_coeff =
               dot (scale face_rho face_velocity) (surface_vector a) * fst advection_coeffs;
             temp_coeff =
               (if bc_id \<notin> fully_developed_flow_boundaries k
                then temp_coeff +
                       face_mu * norm_vec (surface_vector a) /
                         norm_vec (minus_vec (faceCentroid (fi a)) rc_centroid)
                else temp_coeff)
         in Some (quotient_defined
                   (bc_id \<in> fully_developed_flow_boundaries k \<or>
                    norm_vec (minus_vec (faceCentroid (fi a)) rc_centroid) \<noteq> 0)
                   (add_range (dim k) (\<lambda>i. temp_coeff) coeff)))
      else if bc_id \<in> symmetry_boundaries k then
        Some (quotient_defined
               (dim k = 0 \<or> \<bar>dot (minus_vec (faceCentroid (fi a)) rc_centroid) nrm\<bar> \<noteq> 0)
               (add_range (dim k)
                 (\<lambda>i. 2 * face_mu * norm_vec (surface_vector a) /
                        \<bar>dot (minus_vec (faceCentroid (fi a)) rc_centroid) nrm\<bar> *
                        component nrm i * component nrm i)
                 coeff))
      else boundary_ids_loop k a nrm rc_centroid face_mu face_rho rest coeff)"

text \<open>
  The fatal error after the loop reads the first boundary id of the face; on a face without
  any, the read goes through the end iterator of an empty set.
\<close>

definition not_completely_bounded :: "Kernel \<Rightarrow> FaceInfo \<Rightarrow> error" where
  "not_completely_bounded k f =
     (case boundaryIDs f of
        [] \<Rightarrow> Undefined ReadThroughEndIterator
      | b # _ \<Rightarrow> NotCompletelyBounded (name k) b)"

text \<open>
  \<^verbatim>\<open>action_functor\<close>, the lambda of \<^verbatim>\<open>coeffCalculator\<close>: it captures \<^verbatim>\<open>coeff\<close> and
  \<^verbatim>\<open>elem_velocity\<close> by reference, so it takes the coefficient and returns it updated.
  Its \<^verbatim>\<open>return\<close> leaves the lambda, that is, ends the work on this face. The face
  information is a value here, so the first assertion, that the pointer to it is not null,
  has nothing to check.
\<close>

definition action_functor ::
  "Kernel \<Rightarrow> Elem \<Rightarrow> VectorValue \<Rightarrow> FunctorArgs \<Rightarrow> VectorValue \<Rightarrow> error + VectorValue" where
  "action_functor k el elem_velocity a coeff =
     mooseAssert k (el = functor_elem a) ElemsMatch
     (mooseAssert k (el = elem (fi a) \<or> Some el = neighborPtr (fi a)) ElemIsOnFace
     (let nrm = (if elem_has_info a then normal (fi a) else neg_vec (normal (fi a)));
          rc_centroid = (if elem_has_info a then elemCentroid (fi a) else neighborCentroid (fi a))
      in
      mooseAssert k (normal_is_surface_vector k a nrm) NormalIsSurfaceVector
      (let face_mu = mu k (fi a);
           face_rho = rho k (fi a)
       in
       if onBoundary k (fi a) then
         (case boundary_ids_loop k a nrm rc_centroid face_mu face_rho (boundaryIDs (fi a)) coeff of
            Some r \<Rightarrow> r
          | None \<Rightarrow> Inl (not_completely_bounded k (fi a)))
       else
         mooseAssert k (neighbor a = Some (elem (fi a)) \<or> neighbor a = neighborPtr (fi a))
           NeighborIsOnFace
         (let neighbor_velocity =
                gather k (\<lambda>i var. getNeighborValue var (neighbor a) (fi a) (component elem_velocity i));
              interp_v = interpolate_Average elem_velocity neighbor_velocity (fi a) (elem_has_info a);
              advection_coeffs = interpCoeffs k (fi a) (elem_has_info a) interp_v;
              temp_coeff = dot (scale face_rho interp_v) (surface_vector a) * fst advection_coeffs;
              temp_coeff =
                temp_coeff +
                  face_mu * norm_vec (surface_vector a) /
                    norm_vec (minus_vec (neighborCentroid (fi a)) (elemCentroid (fi a)))
          in quotient_defined
               (norm_vec (minus_vec (neighborCentroid (fi a)) (elemCentroid (fi a))) \<noteq> 0)
               (add_range (dim k) (\<lambda>i. temp_coeff) coeff)))))"

text \<open>\<^verbatim>\<open>loopOverElemFaceInfo\<close>: the functor on each face of the cell, in order.\<close>

fun loopOverElemFaceInfo ::
  "Kernel \<Rightarrow> Elem \<Rightarrow> VectorValue \<Rightarrow> FunctorArgs list \<Rightarrow> VectorValue \<Rightarrow> error + VectorValue" where
  "loopOverElemFaceInfo k el elem_velocity [] coeff = Inr coeff"
| "loopOverElemFaceInfo k el elem_velocity (a # rest) coeff =
     (case action_functor k el elem_velocity a coeff of
        Inl err \<Rightarrow> Inl err
      | Inr c \<Rightarrow> loopOverElemFaceInfo k el elem_velocity rest c)"

definition coeffCalculator :: "Kernel \<Rightarrow> Elem \<Rightarrow> error + VectorValue" where
  "coeffCalculator k el =
     (let coeff = zero_vec;
          elem_velocity = gather k (\<lambda>i var. getElemValue var el)
      in loopOverElemFaceInfo k el elem_velocity (elemFaceInfo k el) coeff)"

section \<open>The boundary classifier\<close>

text \<open>
  The boundary-condition objects the warehouse holds, by the class the queries tell apart.
  \<open>INSFVFullyDevelopedFlowBC\<close> is a subclass of the flow condition; \<open>INSFVFlowBC\<close> here
  stands for a flow condition of any other subclass.
\<close>

datatype BoundaryCondition =
    INSFVFlowBC
  | INSFVFullyDevelopedFlowBC
  | INSFVNoSlipWallBC
  | INSFVSlipWallBC
  | INSFVSymmetryBC
  | OtherBC

text \<open>The attribute a query selects by.\<close>

datatype INSFVBCs = AttribFlow | AttribNoSlipWall | AttribSlipWall | AttribSymmetry

fun has_attribute :: "INSFVBCs \<Rightarrow> BoundaryCondition \<Rightarrow> bool" where
  "has_attribute AttribFlow bc = (bc = INSFVFlowBC \<or> bc = INSFVFullyDevelopedFlowBC)"
| "has_attribute AttribNoSlipWall bc = (bc = INSFVNoSlipWallBC)"
| "has_attribute AttribSlipWall bc = (bc = INSFVSlipWallBC)"
| "has_attribute AttribSymmetry bc = (bc = INSFVSymmetryBC)"

text \<open>
  \<^verbatim>\<open>theWarehouse().query().condition<AttribBoundaries>(bnd_id)
  .condition<AttribINSFVBCs>(t).queryInto(bcs)\<close>; the warehouse \<open>wh\<close> gives the
  conditions active on a boundary.
\<close>

definition queryInto ::
  "(BoundaryID \<Rightarrow> BoundaryCondition list) \<Rightarrow> BoundaryID \<Rightarrow> INSFVBCs \<Rightarrow> BoundaryCondition list" where
  "queryInto wh bnd_id t = filter (has_attribute t) (wh bnd_id)"

text \<open>\<^verbatim>\<open>for (auto * flow_bc : flow_bcs) mooseAssert(cond(flow_bc), ...)\<close>.\<close>

fun assert_each ::
  "Kernel \<Rightarrow> (BoundaryCondition \<Rightarrow> bool) \<Rightarrow> assertion \<Rightarrow> BoundaryCondition list \<Rightarrow>
   (error + 'a) \<Rightarrow> error + 'a" where
  "assert_each k cond a [] rest = rest"
| "assert_each k cond a (bc # bcs) rest = mooseAssert k (cond bc) a (assert_each k cond a bcs rest)"

definition setupFlowBoundaries ::
  "Kernel \<Rightarrow> (BoundaryID \<Rightarrow> BoundaryCondition list) \<Rightarrow> BoundaryID \<Rightarrow> error + Kernel" where
  "setupFlowBoundaries k wh bnd_id =
     (let flow_bcs = queryInto wh bnd_id AttribFlow in
      if flow_bcs \<noteq> [] then
        (let k1 = (if hd flow_bcs = INSFVFullyDevelopedFlowBC
                   then k\<lparr>fully_developed_flow_boundaries :=
                            insert bnd_id (fully_developed_flow_boundaries k)\<rparr>
                   else k)
         in
         (if hd flow_bcs = INSFVFullyDevelopedFlowBC
          then assert_each k (\<lambda>bc. bc = INSFVFullyDevelopedFlowBC) AllFullyDeveloped flow_bcs
          else assert_each k (\<lambda>bc. bc \<noteq> INSFVFullyDevelopedFlowBC) NoneFullyDeveloped flow_bcs)
           (Inr (k1\<lparr>flow_boundaries := insert bnd_id (flow_boundaries k1),
                     all_boundaries := insert bnd_id (all_boundaries k1)\<rparr>)))
      else Inr k)"

text \<open>
  \<^verbatim>\<open>setupBoundaries<T>(bnd_id, bc_type, bnd_ids)\<close>; the set passed by reference is named
  by the attribute. The source calls it for the two walls and the symmetry, never for the
  flow attribute.
\<close>

definition setupBoundaries ::
  "Kernel \<Rightarrow> (BoundaryID \<Rightarrow> BoundaryCondition list) \<Rightarrow> BoundaryID \<Rightarrow> INSFVBCs \<Rightarrow> Kernel" where
  "setupBoundaries k wh bnd_id bc_type =
     (let bcs = queryInto wh bnd_id bc_type in
      if bcs \<noteq> [] then
        (let k1 = (case bc_type of
                     AttribFlow \<Rightarrow> k\<lparr>flow_boundaries := insert bnd_id (flow_boundaries k)\<rparr>
                   | AttribNoSlipWall \<Rightarrow>
                       k\<lparr>no_slip_wall_boundaries := insert bnd_id (no_slip_wall_boundaries k)\<rparr>
                   | AttribSlipWall \<Rightarrow>
                       k\<lparr>slip_wall_boundaries := insert bnd_id (slip_wall_boundaries k)\<rparr>
                   | AttribSymmetry \<Rightarrow>
                       k\<lparr>symmetry_boundaries := insert bnd_id (symmetry_boundaries k)\<rparr>)
         in k1\<lparr>all_boundaries := insert bnd_id (all_boundaries k1)\<rparr>)
      else k)"

text \<open>
  \<^verbatim>\<open>initialSetup\<close>: \<open>all_connected_boundaries\<close> is the set of boundaries connected to the
  kernel's blocks, in iteration order.
\<close>

fun initialSetup ::
  "Kernel \<Rightarrow> (BoundaryID \<Rightarrow> BoundaryCondition list) \<Rightarrow> BoundaryID list \<Rightarrow> error + Kernel" where
  "initialSetup k wh [] = Inr k"
| "initialSetup k wh (bnd_id # all_connected_boundaries) =
     (case setupFlowBoundaries k wh bnd_id of
        Inl err \<Rightarrow> Inl err
      | Inr k1 \<Rightarrow>
          initialSetup
            (setupBoundaries
              (setupBoundaries (setupBoundaries k1 wh bnd_id AttribNoSlipWall) wh bnd_id
                 AttribSlipWall)
              wh bnd_id AttribSymmetry)
            wh all_connected_boundaries)"

section \<open>The skip predicate\<close>


section \<open>The coefficient cache\<close>

text \<open>
  The static \<^verbatim>\<open>_rc_a_coeffs\<close>: for each application, one map from cell to coefficient
  per thread.
\<close>

type_synonym rc_a_coeffs = "nat \<Rightarrow> (Elem \<Rightarrow> VectorValue option) list option"

text \<open>\<^verbatim>\<open>my_map.emplace(key, v)\<close>: inserts only an absent key, and says whether it did.\<close>

definition emplace ::
  "(Elem \<Rightarrow> VectorValue option) \<Rightarrow> Elem \<Rightarrow> VectorValue \<Rightarrow>
   (Elem \<Rightarrow> VectorValue option) \<times> VectorValue \<times> bool" where
  "emplace my_map key v =
     (case my_map key of
        None \<Rightarrow> (my_map(key \<mapsto> v), v, True)
      | Some old \<Rightarrow> (my_map, old, False))"

definition rcCoeff :: "Kernel \<Rightarrow> rc_a_coeffs \<Rightarrow> Elem \<Rightarrow> error + VectorValue \<times> rc_a_coeffs" where
  "rcCoeff k s el =
     (case s (app k) of
        None \<Rightarrow> violated k CoeffsStructureExists ReadThroughEndIterator
      | Some vec_of_coeffs_map \<Rightarrow>
          required k (tid k < length vec_of_coeffs_map) ThreadIdInRange IndexPastTheEnd
          (let my_map = vec_of_coeffs_map ! tid k in
           case my_map el of
             Some c \<Rightarrow> Inr (c, s)
           | None \<Rightarrow>
               (case coeffCalculator k el of
                  Inl err \<Rightarrow> Inl err
                | Inr c \<Rightarrow>
                    (case emplace my_map el c of
                       (my_map1, stored, inserted) \<Rightarrow>
                         mooseAssert k inserted NewInsertion
                           (Inr (stored,
                                 s(app k \<mapsto> vec_of_coeffs_map[tid k := my_map1])))))))"

definition clearRCCoeffs :: "Kernel \<Rightarrow> rc_a_coeffs \<Rightarrow> error + rc_a_coeffs" where
  "clearRCCoeffs k s =
     (case s (app k) of
        None \<Rightarrow> violated k CoeffsStructureExists ReadThroughEndIterator
      | Some vec_of_coeffs_map \<Rightarrow>
          required k (tid k < length vec_of_coeffs_map) ThreadIdInRange IndexPastTheEnd
            (Inr (s(app k \<mapsto> vec_of_coeffs_map[tid k := Map.empty]))))"

section \<open>The momentum interpolator\<close>

text \<open>
  \<^verbatim>\<open>interpolate(m, v)\<close> on the face \<open>f\<close> (the member \<^verbatim>\<open>_face_info\<close>). \<open>v\<close> is passed by
  reference: the boundary branch writes only the components that have a variable. The
  coefficient lookups may fill the cache, so the cache is returned too.
\<close>

definition interpolate ::
  "Kernel \<Rightarrow> rc_a_coeffs \<Rightarrow> FaceInfo \<Rightarrow> InterpMethod \<Rightarrow> VectorValue \<Rightarrow>
   error + VectorValue \<times> rc_a_coeffs" where
  "interpolate k s f m v =
     (if onBoundary k f then
        mooseAssert k (list_ex (\<lambda>b_id. b_id \<in> flow_boundaries k) (boundaryIDs f)) OnlyFlowBoundaries
        (let v = assign v 0 (getBoundaryFaceValue (u_var k) f);
             v = (case v_var k of None \<Rightarrow> v | Some y \<Rightarrow> assign v 1 (getBoundaryFaceValue y f));
             v = (case w_var k of None \<Rightarrow> v | Some z \<Rightarrow> assign v 2 (getBoundaryFaceValue z f))
         in Inr (v, s))
      else
        (let v = interpolate_Average (vel_elem_face k f) (vel_neighbor_face k f) f True in
         if m = Average then Inr (v, s)
         else
           mooseAssert k
             (case neighborPtr f of None \<Rightarrow> False | Some nb \<Rightarrow> hasBlocks k (subdomain_id nb))
             OnInternalFace
           (let grad_p = adGradSln (p_var k) f;
                unc_grad_p = uncorrectedAdGradSln (p_var k) f;
                elem_centroid = elemCentroid f;
                neighbor_centroid = neighborCentroid f;
                elem_volume = elemVolume f;
                neighbor_volume = neighborVolume f
            in
            case rcCoeff k s (elem f) of
              Inl err \<Rightarrow> Inl err
            | Inr (elem_a, s1) \<Rightarrow>
                mooseAssert k
                  (case neighborPtr f of
                     None \<Rightarrow> False
                   | Some nb \<Rightarrow>
                       getCoordSystem k (subdomain_id (elem f)) = getCoordSystem k (subdomain_id nb))
                  SameCoordSystem
                (let coord = coordTransformFactor k (subdomain_id (elem f)) elem_centroid;
                     elem_volume = elem_volume * coord
                 in
                 required k (list_all (\<lambda>i. component elem_a i \<noteq> 0) [0..<dim k])
                   NotDividingByZero QuotientByZero
                 (let elem_D = set_range (dim k) (\<lambda>i. elem_volume / component elem_a i) zero_vec in
                  case neighborPtr f of
                    None \<Rightarrow> Inl (Undefined ReadThroughNullPointer)
                  | Some nb \<Rightarrow>
                      (case rcCoeff k s1 nb of
                         Inl err \<Rightarrow> Inl err
                       | Inr (neighbor_a, s2) \<Rightarrow>
                           (let coord = coordTransformFactor k (subdomain_id nb) neighbor_centroid;
                                neighbor_volume = neighbor_volume * coord
                            in
                            required k (list_all (\<lambda>i. component neighbor_a i \<noteq> 0) [0..<dim k])
                              NotDividingByZero QuotientByZero
                            (let neighbor_D =
                                   set_range (dim k) (\<lambda>i. neighbor_volume / component neighbor_a i)
                                     zero_vec;
                                 face_D = interpolate_Average elem_D neighbor_D f True
                             in
                             Inr (sub_range (dim k)
                                    (\<lambda>i. component face_D i * (component grad_p i - component unc_grad_p i)) v,
                                  s2)))))))))"

section \<open>The residual assembler\<close>



section \<open>Notions used in the statements\<close>

text \<open>A boundary id that is in none of the four sets the coefficient calculator tests.\<close>

definition unrecognized :: "Kernel \<Rightarrow> BoundaryID \<Rightarrow> bool" where
  "unrecognized k b =
     (b \<notin> no_slip_wall_boundaries k \<and> b \<notin> slip_wall_boundaries k \<and>
      b \<notin> flow_boundaries k \<and> b \<notin> symmetry_boundaries k)"

text \<open>
  The normal pointing out of the cell whose coefficient is computed, and that cell's
  centroid: the locals \<^verbatim>\<open>normal\<close> and \<^verbatim>\<open>rc_centroid\<close> of the functor.
\<close>

definition rc_normal :: "FunctorArgs \<Rightarrow> VectorValue" where
  "rc_normal a = (if elem_has_info a then normal (fi a) else neg_vec (normal (fi a)))"

definition rc_centroid_of :: "FunctorArgs \<Rightarrow> VectorValue" where
  "rc_centroid_of a = (if elem_has_info a then elemCentroid (fi a) else neighborCentroid (fi a))"

text \<open>The three conditions the functor asserts on every face before it looks at the face.\<close>

definition functor_assertions_hold :: "Kernel \<Rightarrow> Elem \<Rightarrow> FunctorArgs \<Rightarrow> bool" where
  "functor_assertions_hold k el a =
     (el = functor_elem a \<and> (el = elem (fi a) \<or> Some el = neighborPtr (fi a)) \<and>
      normal_is_surface_vector k a (rc_normal a))"

text \<open>The unit vector of the coordinate axis \<open>j\<close>.\<close>

definition unit_axis :: "nat \<Rightarrow> VectorValue" where
  "unit_axis j = assign zero_vec j 1"

text \<open>
  The velocity at a boundary face, component by component: the boundary-face value of each
  velocity variable, zero where the variable is absent.
\<close>

definition boundary_face_velocity :: "Kernel \<Rightarrow> FaceInfo \<Rightarrow> VectorValue" where
  "boundary_face_velocity k f =
     Vec (getBoundaryFaceValue (u_var k) f)
         (case v_var k of None \<Rightarrow> 0 | Some y \<Rightarrow> getBoundaryFaceValue y f)
         (case w_var k of None \<Rightarrow> 0 | Some z \<Rightarrow> getBoundaryFaceValue z f)"

text \<open>
  The velocity of a cell, component by component: the cell value of each velocity variable,
  zero where the variable is absent.
\<close>

definition cell_velocity :: "Kernel \<Rightarrow> Elem \<Rightarrow> VectorValue" where
  "cell_velocity k el =
     Vec (getElemValue (u_var k) el)
         (case v_var k of None \<Rightarrow> 0 | Some y \<Rightarrow> getElemValue y el)
         (case w_var k of None \<Rightarrow> 0 | Some z \<Rightarrow> getElemValue z el)"

text \<open>
  The distances the boundary branches divide by: from the cell centroid to the face
  centroid, along the normal and in full.
\<close>

definition normal_distance :: "FunctorArgs \<Rightarrow> real" where
  "normal_distance a =
     \<bar>dot (minus_vec (faceCentroid (fi a)) (rc_centroid_of a)) (rc_normal a)\<bar>"

definition centroid_distance :: "FunctorArgs \<Rightarrow> real" where
  "centroid_distance a = norm_vec (minus_vec (faceCentroid (fi a)) (rc_centroid_of a))"

text \<open>
  A face on which the functor returns normally: its assertions hold (or the build has
  none), no distance it may divide by is zero, and a boundary face carries at least one
  recognized boundary id.
\<close>

definition face_resolves :: "Kernel \<Rightarrow> Elem \<Rightarrow> FunctorArgs \<Rightarrow> bool" where
  "face_resolves k el a =
     ((NDEBUG k \<or> functor_assertions_hold k el a) \<and>
      (if onBoundary k (fi a)
       then list_ex (\<lambda>b. \<not> unrecognized k b) (boundaryIDs (fi a)) \<and>
            normal_distance a \<noteq> 0 \<and> centroid_distance a \<noteq> 0
       else (NDEBUG k \<or> neighbor a = Some (elem (fi a)) \<or> neighbor a = neighborPtr (fi a)) \<and>
            norm_vec (minus_vec (neighborCentroid (fi a)) (elemCentroid (fi a))) \<noteq> 0))"

text \<open>What the cache holds for an application, a thread and a cell.\<close>

definition cached :: "rc_a_coeffs \<Rightarrow> nat \<Rightarrow> nat \<Rightarrow> Elem \<Rightarrow> VectorValue option" where
  "cached s ap t el =
     (case s ap of
        None \<Rightarrow> None
      | Some vec_of_coeffs_map \<Rightarrow>
          if t < length vec_of_coeffs_map then (vec_of_coeffs_map ! t) el else None)"

text \<open>
  A stretch of an assembly pass without a clear: the cache changes only through lookups,
  by any kernel object, on any thread, for any cell.
\<close>

inductive lookups_only :: "rc_a_coeffs \<Rightarrow> rc_a_coeffs \<Rightarrow> bool" where
  no_lookup: "lookups_only s s"
| one_more: "lookups_only s s1 \<Longrightarrow> rcCoeff k1 s1 e1 = Inr (c1, s2) \<Longrightarrow> lookups_only s s2"

section \<open>An example: two cells in a channel\<close>

text \<open>
  Two square cells of side 2 side by side, \<open>cellA\<close> with centroid \<open>(1, 1)\<close> and \<open>cellB\<close>
  with centroid \<open>(3, 1)\<close>. Boundary 1 is a flow boundary (the left and right ends), 2 a
  no-slip wall (the bottom), 3 a slip wall (the top of \<open>cellB\<close>), 4 a symmetry plane (the
  top of \<open>cellA\<close>); boundary 0 carries no condition and shares two faces with others.
  Viscosity and density are 1, the velocity is \<open>(1, 0)\<close> everywhere, the advected
  interpolation is central.
\<close>

definition cellA :: Elem where
  "cellA = \<lparr>elem_id = 0, subdomain_id = 0\<rparr>"

definition cellB :: Elem where
  "cellB = \<lparr>elem_id = 1, subdomain_id = 0\<rparr>"

definition boundary_face ::
  "Elem \<Rightarrow> VectorValue \<Rightarrow> VectorValue \<Rightarrow> VectorValue \<Rightarrow> BoundaryID list \<Rightarrow> FaceInfo" where
  "boundary_face e ec n fc ids =
     \<lparr>elem = e, neighborPtr = None, normal = n, faceArea = 2, faceCentroid = fc,
      elemCentroid = ec, neighborCentroid = fc, elemVolume = 4, neighborVolume = 0,
      boundaryIDs = ids, gC = 1\<rparr>"

definition boundary_args ::
  "Elem \<Rightarrow> VectorValue \<Rightarrow> VectorValue \<Rightarrow> VectorValue \<Rightarrow> BoundaryID list \<Rightarrow> FunctorArgs" where
  "boundary_args e ec n fc ids =
     \<lparr>functor_elem = e, neighbor = None, fi = boundary_face e ec n fc ids,
      surface_vector = scale 2 n, coord = 1, elem_has_info = True\<rparr>"

definition faceAB :: FaceInfo where
  "faceAB =
     \<lparr>elem = cellA, neighborPtr = Some cellB, normal = Vec 1 0 0, faceArea = 2,
      faceCentroid = Vec 2 1 0, elemCentroid = Vec 1 1 0, neighborCentroid = Vec 3 1 0,
      elemVolume = 4, neighborVolume = 4, boundaryIDs = [], gC = 1 / 2\<rparr>"

definition argsA_left :: FunctorArgs where
  "argsA_left = boundary_args cellA (Vec 1 1 0) (Vec (- 1) 0 0) (Vec 0 1 0) [1]"

definition argsA_bottom :: FunctorArgs where
  "argsA_bottom = boundary_args cellA (Vec 1 1 0) (Vec 0 (- 1) 0) (Vec 1 0 0) [2]"

definition argsA_top :: FunctorArgs where
  "argsA_top = boundary_args cellA (Vec 1 1 0) (Vec 0 1 0) (Vec 1 2 0) [0, 4]"

definition argsA_right :: FunctorArgs where
  "argsA_right =
     \<lparr>functor_elem = cellA, neighbor = Some cellB, fi = faceAB,
      surface_vector = Vec 2 0 0, coord = 1, elem_has_info = True\<rparr>"

definition argsB_left :: FunctorArgs where
  "argsB_left =
     \<lparr>functor_elem = cellB, neighbor = Some cellA, fi = faceAB,
      surface_vector = Vec (- 2) 0 0, coord = 1, elem_has_info = False\<rparr>"

definition argsB_bottom :: FunctorArgs where
  "argsB_bottom = boundary_args cellB (Vec 3 1 0) (Vec 0 (- 1) 0) (Vec 3 0 0) [0, 2, 3, 4]"

definition argsB_top :: FunctorArgs where
  "argsB_top = boundary_args cellB (Vec 3 1 0) (Vec 0 1 0) (Vec 3 2 0) [3]"

definition argsB_right :: FunctorArgs where
  "argsB_right = boundary_args cellB (Vec 3 1 0) (Vec 1 0 0) (Vec 4 1 0) [1]"

definition uniform_variable :: "real \<Rightarrow> INSFVVelocityVariable" where
  "uniform_variable c =
     \<lparr>getElemValue = (\<lambda>e. c), getBoundaryFaceValue = (\<lambda>f. c),
      getNeighborValue = (\<lambda>nb f fallback. c)\<rparr>"

definition channel :: Kernel where
  "channel =
     \<lparr>name = ''momentum_x'', app = 0, tid = 0, dim = 2, NDEBUG = False,
      TOLERANCE = 1 / 1000000,
      u_var = uniform_variable 1, v_var = Some (uniform_variable 0), w_var = None,
      p_var = \<lparr>adGradSln = (\<lambda>f. Vec 3 2 0), uncorrectedAdGradSln = (\<lambda>f. Vec 1 1 0)\<rparr>,
      mu = (\<lambda>f. 1), rho = (\<lambda>f. 1), mu_elem_face = (\<lambda>f. 1), mu_neighbor_face = (\<lambda>f. 1),
      vel_elem_face = (\<lambda>f. Vec 1 0 0), vel_neighbor_face = (\<lambda>f. Vec 1 0 0),
      adv_quant_elem_face = (\<lambda>f. 1), adv_quant_neighbor_face = (\<lambda>f. 1),
      interpCoeffs = (\<lambda>f one_is_elem advector. (1 / 2, 1 / 2)),
      interpolate_advected = (\<lambda>value1 value2 advector f one_is_elem. (value1 + value2) / 2),
      gradUDotNormal = (\<lambda>f. 0),
      onBoundary = (\<lambda>f. neighborPtr f = None),
      hasBlocks = (\<lambda>b. True),
      getCoordSystem = (\<lambda>b. COORD_XYZ),
      coordTransformFactor = (\<lambda>b p. 1),
      var_getFluxBCs = (\<lambda>f. False),
      var_getDirichletBC = (\<lambda>f. False),
      elemFaceInfo =
        (\<lambda>e. if elem_id e = 0 then [argsA_left, argsA_bottom, argsA_top, argsA_right]
             else if elem_id e = 1 then [argsB_left, argsB_bottom, argsB_top, argsB_right]
             else []),
      velocity_interp_method = RhieChow,
      flow_boundaries = {1}, fully_developed_flow_boundaries = {},
      no_slip_wall_boundaries = {2}, slip_wall_boundaries = {3}, symmetry_boundaries = {4},
      all_boundaries = {1, 2, 3, 4}\<rparr>"

text \<open>The cache as the constructor leaves it for one application and one thread.\<close>

definition empty_cache :: rc_a_coeffs where
  "empty_cache = (\<lambda>ap. if ap = 0 then Some [Map.empty] else None)"

text \<open>The same channel whose ends carry no flow condition.\<close>

definition open_channel :: Kernel where
  "open_channel = channel\<lparr>flow_boundaries := {}\<rparr>"

text \<open>The same channel with a pressure whose two face gradients agree.\<close>

definition linear_pressure_channel :: Kernel where
  "linear_pressure_channel =
     channel\<lparr>p_var := \<lparr>adGradSln = (\<lambda>f. Vec 1 1 0), uncorrectedAdGradSln = (\<lambda>f. Vec 1 1 0)\<rparr>\<rparr>"

text \<open>The channel with that pressure and a fluid without viscosity.\<close>

definition inviscid_channel :: Kernel where
  "inviscid_channel = linear_pressure_channel\<lparr>mu := (\<lambda>f. 0)\<rparr>"

text \<open>
  A face like the bottom face of \<open>cellA\<close> that is on the inlet as well as on the wall, and a
  face like its top face that is an outlet.
\<close>

definition argsA_bottom_corner :: FunctorArgs where
  "argsA_bottom_corner = boundary_args cellA (Vec 1 1 0) (Vec 0 (- 1) 0) (Vec 1 0 0) [1, 2]"

definition argsA_top_outlet :: FunctorArgs where
  "argsA_top_outlet = boundary_args cellA (Vec 1 1 0) (Vec 0 1 0) (Vec 1 2 0) [1]"

text \<open>
  The channel with a cross flow, the velocity being \<open>(1, 3)\<close>, and an outlet on top of
  \<open>cellA\<close>.
\<close>

definition crossflow_channel :: Kernel where
  "crossflow_channel =
     channel\<lparr>v_var := Some (uniform_variable 3),
             elemFaceInfo :=
               (\<lambda>e. if elem_id e = 0
                    then [argsA_left, argsA_bottom, argsA_top_outlet, argsA_right]
                    else [])\<rparr>"

text \<open>The channel whose inlet boundary 1 carries a slip-wall condition too.\<close>

definition slip_inlet_channel :: Kernel where
  "slip_inlet_channel = channel\<lparr>slip_wall_boundaries := {1, 3}\<rparr>"

text \<open>The same channel with a substitute flux condition on every boundary face.\<close>

definition flux_channel :: Kernel where
  "flux_channel = channel\<lparr>var_getFluxBCs := (\<lambda>f. True)\<rparr>"

text \<open>
  A warehouse with two fully developed outlets and a wall condition on boundary 5, and one
  with a fully developed outlet and another flow condition there.
\<close>

definition outlet_warehouse :: "BoundaryID \<Rightarrow> BoundaryCondition list" where
  "outlet_warehouse b =
     (if b = 5 then [INSFVFullyDevelopedFlowBC, INSFVNoSlipWallBC, INSFVFullyDevelopedFlowBC]
      else [])"

definition mixed_warehouse :: "BoundaryID \<Rightarrow> BoundaryCondition list" where
  "mixed_warehouse b = (if b = 5 then [INSFVFullyDevelopedFlowBC, INSFVFlowBC] else [])"

section \<open>Auxiliary facts\<close>

subsection \<open>Vectors and loops\<close>

lemma component_assign:
  "component (assign v j x) i = (if i = j \<and> j < 3 then x else component v i)"
  by (cases v) auto

lemma component_neg_vec: "component (neg_vec v) i = - component v i"
  by (cases v) auto

lemma component_scale: "component (scale r v) i = r * component v i"
  by (cases v) auto

lemma component_plus_vec: "component (plus_vec a b) i = component a i + component b i"
  by (cases a; cases b) auto

lemma dot_scale: "dot (scale r v) w = r * dot v w"
  by (cases v; cases w) (simp add: algebra_simps)

lemma vec_eqI:
  assumes "\<And>i. i < 3 \<Longrightarrow> component a i = component b i"
  shows "a = b"
proof -
  obtain a0 a1 a2 where a: "a = Vec a0 a1 a2" by (cases a)
  obtain b0 b1 b2 where b: "b = Vec b0 b1 b2" by (cases b)
  from assms[of 0] assms[of 1] assms[of 2] show ?thesis by (simp add: a b)
qed

lemma component_add_range:
  "component (add_range n f v) i =
     (if i < n \<and> i < 3 then component v i + f i else component v i)"
  unfolding add_range_def by (induction n) (auto simp: component_assign)

lemma component_sub_range:
  "component (sub_range n f v) i =
     (if i < n \<and> i < 3 then component v i - f i else component v i)"
  unfolding sub_range_def by (induction n) (auto simp: component_assign)

lemma component_set_range:
  "component (set_range n f v) i = (if i < n \<and> i < 3 then f i else component v i)"
  unfolding set_range_def by (induction n) (auto simp: component_assign)

lemma component_interpolate_Average:
  "component (interpolate_Average a b f True) i =
     gC f * component a i + (1 - gC f) * component b i"
  by (simp add: interpolate_Average_def component_plus_vec component_scale)

lemma add_range_0: "add_range 0 f v = v"
  by (simp add: add_range_def)

lemma add_range_Suc:
  "add_range (Suc n) f v = assign (add_range n f v) n (component (add_range n f v) n + f n)"
  by (simp add: add_range_def)

subsection \<open>The functor on a boundary face\<close>

lemma boundary_ids_loop_skip:
  "\<forall>t\<in>set pre. unrecognized k t \<Longrightarrow>
   boundary_ids_loop k a nrm rc fm fr (pre @ rest) coeff =
   boundary_ids_loop k a nrm rc fm fr rest coeff"
  by (induction pre) (auto simp: unrecognized_def)

lemma boundary_ids_loop_none:
  "\<forall>t\<in>set ids. unrecognized k t \<Longrightarrow> boundary_ids_loop k a nrm rc fm fr ids coeff = None"
  by (induction ids) (auto simp: unrecognized_def)

lemma boundary_ids_loop_some:
  "\<exists>t\<in>set ids. \<not> unrecognized k t \<Longrightarrow>
   \<exists>r. boundary_ids_loop k a nrm rc fm fr ids coeff = Some r"
  by (induction ids) (auto simp: unrecognized_def Let_def)

lemma boundary_ids_loop_Inr:
  "\<exists>t\<in>set ids. \<not> unrecognized k t \<Longrightarrow>
   \<bar>dot (minus_vec (faceCentroid (fi a)) rc) nrm\<bar> \<noteq> 0 \<Longrightarrow>
   norm_vec (minus_vec (faceCentroid (fi a)) rc) \<noteq> 0 \<Longrightarrow>
   \<exists>c. boundary_ids_loop k a nrm rc fm fr ids coeff = Some (Inr c)"
  by (induction ids) (auto simp: unrecognized_def Let_def quotient_defined_def)

lemma action_functor_boundary:
  assumes "NDEBUG k \<or> functor_assertions_hold k el a"
    and "onBoundary k (fi a)"
  shows "action_functor k el ev a coeff =
     (case boundary_ids_loop k a (rc_normal a) (rc_centroid_of a) (mu k (fi a)) (rho k (fi a))
             (boundaryIDs (fi a)) coeff of
        Some r \<Rightarrow> r
      | None \<Rightarrow> Inl (not_completely_bounded k (fi a)))"
  using assms
  by (auto simp: action_functor_def mooseAssert_def functor_assertions_hold_def rc_normal_def
      rc_centroid_of_def Let_def)

lemma face_resolves_Inr:
  assumes "face_resolves k el a"
  shows "\<exists>c. action_functor k el ev a coeff = Inr c"
proof (cases "onBoundary k (fi a)")
  case True
  have as: "NDEBUG k \<or> functor_assertions_hold k el a"
    using assms by (simp add: face_resolves_def)
  have some: "\<exists>t\<in>set (boundaryIDs (fi a)). \<not> unrecognized k t"
    using assms True by (simp add: face_resolves_def list_ex_iff)
  have d: "\<bar>dot (minus_vec (faceCentroid (fi a)) (rc_centroid_of a)) (rc_normal a)\<bar> \<noteq> 0"
    "norm_vec (minus_vec (faceCentroid (fi a)) (rc_centroid_of a)) \<noteq> 0"
    using assms True by (simp_all add: face_resolves_def normal_distance_def centroid_distance_def)
  from boundary_ids_loop_Inr[OF some d]
  obtain c where "boundary_ids_loop k a (rc_normal a) (rc_centroid_of a) (mu k (fi a))
      (rho k (fi a)) (boundaryIDs (fi a)) coeff = Some (Inr c)" by blast
  then show ?thesis
    by (simp add: action_functor_boundary[OF as True])
next
  case False
  then show ?thesis using assms
    by (auto simp: face_resolves_def action_functor_def mooseAssert_def quotient_defined_def
        functor_assertions_hold_def rc_normal_def Let_def)
qed

lemma loop_over_resolved_faces:
  assumes "\<forall>x\<in>set earlier. face_resolves k el x"
  shows "\<exists>c. loopOverElemFaceInfo k el ev (earlier @ rest) coeff =
              loopOverElemFaceInfo k el ev rest c"
  using assms
proof (induction earlier arbitrary: coeff)
  case Nil
  then show ?case by auto
next
  case (Cons x xs)
  then obtain c where "action_functor k el ev x coeff = Inr c"
    using face_resolves_Inr[of k el x ev coeff] by auto
  then show ?case using Cons by simp
qed

lemma gather_explicit:
  "gather k g =
     Vec (g 0 (u_var k))
         (case v_var k of None \<Rightarrow> 0 | Some y \<Rightarrow> g 1 y)
         (case w_var k of None \<Rightarrow> 0 | Some z \<Rightarrow> g 2 z)"
  by (simp add: gather_def from_x_def Let_def split: option.splits)

lemma loop_append:
  "loopOverElemFaceInfo k el ev (xs @ ys) coeff =
     (case loopOverElemFaceInfo k el ev xs coeff of
        Inl err \<Rightarrow> Inl err
      | Inr c \<Rightarrow> loopOverElemFaceInfo k el ev ys c)"
  by (induction xs arbitrary: coeff) (auto split: sum.splits)

lemma calculator_at_face:
  assumes "elemFaceInfo k el = earlier @ a # later"
    and "loopOverElemFaceInfo k el (cell_velocity k el) earlier zero_vec = Inr coeff"
    and "action_functor k el (cell_velocity k el) a coeff = Inr c"
  shows "coeffCalculator k el = loopOverElemFaceInfo k el (cell_velocity k el) later c"
  using assms
  by (simp add: coeffCalculator_def Let_def gather_explicit cell_velocity_def loop_append)

subsection \<open>The cache\<close>

lemma rcCoeff_cases:
  assumes "rcCoeff k s el = Inr (c, s1)"
  obtains (hit) "cached s (app k) (tid k) el = Some c" "s1 = s"
  | (miss) vec where "s (app k) = Some vec" "tid k < length vec" "(vec ! tid k) el = None"
      "coeffCalculator k el = Inr c" "s1 = s(app k \<mapsto> vec[tid k := (vec ! tid k)(el \<mapsto> c)])"
  using assms
  by (auto simp: rcCoeff_def required_def violated_def cached_def emplace_def mooseAssert_def
      Let_def split: option.splits sum.splits if_splits)

lemma rcCoeff_hit:
  assumes "cached s (app k) (tid k) el = Some c"
  shows "rcCoeff k s el = Inr (c, s)"
  using assms
  by (auto simp: rcCoeff_def required_def cached_def Let_def split: option.splits if_splits)

lemma rcCoeff_miss:
  assumes "cached s (app k) (tid k) el = None"
    and "s (app k) = Some vec" "tid k < length vec"
  shows "map_sum id fst (rcCoeff k s el) = coeffCalculator k el"
  using assms
  by (auto simp: rcCoeff_def required_def cached_def emplace_def mooseAssert_def Let_def
      split: option.splits sum.splits if_splits)

lemma rcCoeff_stores:
  assumes "rcCoeff k s el = Inr (c, s1)"
  shows "cached s1 (app k) (tid k) el = Some c"
  using assms by (cases rule: rcCoeff_cases) (auto simp: cached_def)

lemma rcCoeff_keeps:
  assumes "rcCoeff k1 s e1 = Inr (c1, s1)" and "cached s ap t el = Some c"
  shows "cached s1 ap t el = Some c"
  using assms(1)
proof (cases rule: rcCoeff_cases)
  case hit
  then show ?thesis using assms(2) by simp
next
  case (miss vec)
  then show ?thesis using assms(2)
    by (auto simp: cached_def nth_list_update split: if_splits option.splits)
qed

lemma lookups_only_keeps:
  assumes "lookups_only s s1" and "cached s ap t el = Some c"
  shows "cached s1 ap t el = Some c"
  using assms by (induction rule: lookups_only.induct) (auto intro: rcCoeff_keeps)

subsection \<open>The interpolator on an interior face\<close>

lemma interpolate_Average_mode:
  assumes "\<not> onBoundary k f"
  shows "interpolate k s f Average v =
     Inr (interpolate_Average (vel_elem_face k f) (vel_neighbor_face k f) f True, s)"
  using assms by (simp add: interpolate_def Let_def)

lemma interpolate_RhieChow_mode:
  assumes interior: "\<not> onBoundary k f"
    and nb: "neighborPtr f = Some nb"
    and asserts: "NDEBUG k \<or>
        (hasBlocks k (subdomain_id nb) \<and>
         getCoordSystem k (subdomain_id (elem f)) = getCoordSystem k (subdomain_id nb))"
    and ea: "rcCoeff k s (elem f) = Inr (elem_a, s1)"
    and na: "rcCoeff k s1 nb = Inr (neighbor_a, s2)"
    and nz: "\<forall>i<dim k. component elem_a i \<noteq> 0 \<and> component neighbor_a i \<noteq> 0"
  shows "interpolate k s f RhieChow v =
     Inr (sub_range (dim k)
            (\<lambda>i. component
                   (interpolate_Average
                      (set_range (dim k)
                         (\<lambda>i. elemVolume f *
                                coordTransformFactor k (subdomain_id (elem f)) (elemCentroid f) /
                                component elem_a i)
                         zero_vec)
                      (set_range (dim k)
                         (\<lambda>i. neighborVolume f *
                                coordTransformFactor k (subdomain_id nb) (neighborCentroid f) /
                                component neighbor_a i)
                         zero_vec)
                      f True) i *
                 (component (adGradSln (p_var k) f) i -
                  component (uncorrectedAdGradSln (p_var k) f) i))
            (interpolate_Average (vel_elem_face k f) (vel_neighbor_face k f) f True), s2)"
proof -
  have l1: "list_all (\<lambda>i. component elem_a i \<noteq> 0) [0..<dim k]"
    using nz by (simp add: list_all_iff)
  have l2: "list_all (\<lambda>i. component neighbor_a i \<noteq> 0) [0..<dim k]"
    using nz by (simp add: list_all_iff)
  show ?thesis
    using interior asserts
    by (auto simp: interpolate_def Let_def nb ea na l1 l2 mooseAssert_def required_def)
qed

lemma interpolate_RhieChow_returns:
  assumes interior: "\<not> onBoundary k f"
    and ret: "interpolate k s f RhieChow v = Inr (rc, s2)"
  shows "\<exists>nb elem_a neighbor_a s1.
     neighborPtr f = Some nb \<and>
     (NDEBUG k \<or>
        (hasBlocks k (subdomain_id nb) \<and>
         getCoordSystem k (subdomain_id (elem f)) = getCoordSystem k (subdomain_id nb))) \<and>
     rcCoeff k s (elem f) = Inr (elem_a, s1) \<and>
     rcCoeff k s1 nb = Inr (neighbor_a, s2) \<and>
     (\<forall>i<dim k. component elem_a i \<noteq> 0 \<and> component neighbor_a i \<noteq> 0)"
  using assms
  by (auto simp: interpolate_def Let_def mooseAssert_def required_def violated_def list_all_iff
      split: option.splits sum.splits if_splits prod.splits)

subsection \<open>The classifier\<close>

lemma assert_each_eq:
  "assert_each k cond a bcs rest =
     (if NDEBUG k \<or> (\<forall>bc\<in>set bcs. cond bc) then rest else Inl (AssertionFailure a))"
  by (induction bcs) (auto simp: mooseAssert_def)

subsection \<open>The example\<close>

lemmas example_defs = cellA_def cellB_def boundary_face_def boundary_args_def faceAB_def
  argsA_left_def argsA_bottom_def argsA_top_def argsA_right_def argsB_left_def argsB_bottom_def
  argsB_top_def argsB_right_def uniform_variable_def channel_def open_channel_def
  linear_pressure_channel_def flux_channel_def empty_cache_def

lemmas evaluation = add_range_0 add_range_Suc numeral_2_eq_2 numeral_3_eq_3 upt_rec
  norm_vec_def zero_vec_def from_x_def gather_def Let_def interpolate_Average_def
  action_functor_def mooseAssert_def normal_is_surface_vector_def rc_normal_def
  rc_centroid_of_def functor_assertions_hold_def unrecognized_def quotient_defined_def
  normal_distance_def centroid_distance_def

lemma channel_assertions:
  "functor_assertions_hold channel cellA argsA_left"
  "functor_assertions_hold channel cellA argsA_bottom"
  "functor_assertions_hold channel cellA argsA_top"
  "functor_assertions_hold channel cellB argsB_bottom"
  by (simp_all add: example_defs evaluation)

lemma channel_coefficients:
  "coeffCalculator (channel\<lparr>p_var := p\<rparr>) cellA = Inr (Vec 5 7 0)"
  "coeffCalculator (channel\<lparr>p_var := p\<rparr>) cellB = Inr (Vec 5 3 0)"
  by (simp_all add: coeffCalculator_def example_defs evaluation)

text \<open>The first two lookups in the example, whatever the pressure.\<close>

lemma channel_constants:
  "app (channel\<lparr>p_var := p\<rparr>) = 0" "tid (channel\<lparr>p_var := p\<rparr>) = 0"
  "\<not> NDEBUG (channel\<lparr>p_var := p\<rparr>)" "cellA \<noteq> cellB"
  by (simp_all add: channel_def cellA_def cellB_def)

lemma channel_lookups:
  "rcCoeff (channel\<lparr>p_var := p\<rparr>) empty_cache cellA =
     Inr (Vec 5 7 0, empty_cache(0 \<mapsto> [[cellA \<mapsto> Vec 5 7 0]]))"
  "rcCoeff (channel\<lparr>p_var := p\<rparr>) (empty_cache(0 \<mapsto> [[cellA \<mapsto> Vec 5 7 0]])) cellB =
     Inr (Vec 5 3 0, empty_cache(0 \<mapsto> [[cellA \<mapsto> Vec 5 7 0, cellB \<mapsto> Vec 5 3 0]]))"
  using channel_constants(4)
  by (simp_all add: rcCoeff_def channel_constants(1-3) channel_coefficients empty_cache_def
      required_def emplace_def mooseAssert_def Let_def)

section \<open>Properties of the coefficient calculator on boundary faces\<close>

text \<open>
  The statements of this section are about one call of the functor, that is, about one face
  \<open>a\<close> of the cell \<open>el\<close> whose coefficient is being accumulated in \<open>coeff\<close>. They assume
  that the functor's own assertions hold on the face (or that the build has none), that
  the face is a boundary face, and that its boundary ids are \<open>pre @ b # post\<close> with no id
  of \<open>pre\<close> in any of the four sets: \<open>b\<close> is the id the scan stops at. Where the branch
  divides by a distance, they assume that the cell centroid is off the face, so that the
  distance is not zero. A face that lies on several boundaries, or on a boundary with
  conditions of several categories, receives the contribution of the id and category the
  scan stops at, and of no other.
\<close>

text \<open>
  Claim C4, as the code has it. On a boundary face whose scan stops at an id of a no-slip
  wall, that is, whose first boundary id in any of the four sets is a no-slip id, the functor
  adds to every component \<open>i\<close> below the dimension the diffusive term
  \<open>mu * |S| / |(x\<^sub>f - x\<^sub>C) \<sqdot> n| * (1 - n\<^sub>i\<^sup>2)\<close> and nothing else: the result does not
  depend on the density, on any velocity or on the advective interpolation weights, so the
  advective contribution is zero. When the face normal is a coordinate axis, up to sign,
  the component along that axis is left as it was. When the face is a face of the cell and
  the faces before it have left the coefficient \<open>coeff\<close>, the calculator goes on to the
  faces after it with the coefficient the functor returned.
\<close>

theorem no_slip_wall_contribution:
  assumes asserts: "NDEBUG k \<or> functor_assertions_hold k el a"
    and bnd: "onBoundary k (fi a)"
    and ids: "boundaryIDs (fi a) = pre @ b # post"
    and pre: "\<forall>t\<in>set pre. unrecognized k t"
    and b: "b \<in> no_slip_wall_boundaries k"
    and dist: "normal_distance a \<noteq> 0"
  shows "\<exists>c. action_functor k el elem_velocity a coeff = Inr c \<and>
      (\<forall>i<3. component c i =
         (if i < dim k
          then component coeff i +
               mu k (fi a) * norm_vec (surface_vector a) / normal_distance a *
                 (1 - (component (rc_normal a) i)\<^sup>2)
          else component coeff i)) \<and>
      (\<forall>j<3. normal (fi a) = unit_axis j \<or> normal (fi a) = neg_vec (unit_axis j) \<longrightarrow>
         component c j = component coeff j) \<and>
      action_functor (k\<lparr>rho := r, u_var := u, v_var := v, w_var := w, interpCoeffs := ic\<rparr>)
         el ev' a coeff = Inr c \<and>
      (elemFaceInfo k el = earlier @ a # later \<and>
       loopOverElemFaceInfo k el (cell_velocity k el) earlier zero_vec = Inr coeff \<longrightarrow>
       coeffCalculator k el = loopOverElemFaceInfo k el (cell_velocity k el) later c)"
proof -
  let ?k' = "k\<lparr>rho := r, u_var := u, v_var := v, w_var := w, interpCoeffs := ic\<rparr>"
  let ?t = "\<lambda>i. mu k (fi a) * norm_vec (surface_vector a) / normal_distance a *
                 (1 - component (rc_normal a) i * component (rc_normal a) i)"
  let ?c = "add_range (dim k) ?t coeff"
  have pre': "\<forall>t\<in>set pre. unrecognized ?k' t"
    using pre by (simp add: unrecognized_def)
  have a': "NDEBUG ?k' \<or> functor_assertions_hold ?k' el a"
    using asserts by (simp add: functor_assertions_hold_def normal_is_surface_vector_def)
  have 1: "action_functor k el ev a coeff = Inr ?c" for ev
    using b dist
    by (simp add: action_functor_boundary[OF asserts bnd] ids boundary_ids_loop_skip[OF pre]
        quotient_defined_def normal_distance_def)
  have 2: "action_functor ?k' el ev' a coeff = Inr ?c"
    using b bnd dist
    by (simp add: action_functor_boundary[OF a'] ids boundary_ids_loop_skip[OF pre']
        quotient_defined_def normal_distance_def)
  have 3: "\<forall>i<3. component ?c i =
      (if i < dim k
       then component coeff i + mu k (fi a) * norm_vec (surface_vector a) / normal_distance a *
              (1 - (component (rc_normal a) i)\<^sup>2)
       else component coeff i)"
    by (simp add: component_add_range power2_eq_square)
  have 4: "\<forall>j<3. normal (fi a) = unit_axis j \<or> normal (fi a) = neg_vec (unit_axis j) \<longrightarrow>
         component ?c j = component coeff j"
    by (auto simp: component_add_range rc_normal_def unit_axis_def component_assign
        component_neg_vec zero_vec_def)
  have 5: "elemFaceInfo k el = earlier @ a # later \<and>
       loopOverElemFaceInfo k el (cell_velocity k el) earlier zero_vec = Inr coeff \<longrightarrow>
       coeffCalculator k el = loopOverElemFaceInfo k el (cell_velocity k el) later ?c"
    using calculator_at_face[OF _ _ 1] by blast
  show ?thesis using 1 2 3 4 5 by blast
qed

text \<open>
  In the channel, the bottom face of \<open>cellA\<close> (normal \<open>(0, -1)\<close>, area 2, distance 1) is
  its second face. The inlet before it leaves \<open>(1, 1)\<close>; the wall adds 2 to the first
  component and nothing to the second, whatever the density; the two faces after it bring
  the coefficient to \<open>(5, 7)\<close>.
\<close>

theorem no_slip_wall_contribution_witness:
  "functor_assertions_hold channel cellA argsA_bottom \<and>
   onBoundary channel (fi argsA_bottom) \<and>
   boundaryIDs (fi argsA_bottom) = [] @ 2 # [] \<and>
   2 \<in> no_slip_wall_boundaries channel \<and>
   normal_distance argsA_bottom = 1 \<and>
   normal (fi argsA_bottom) = neg_vec (unit_axis 1) \<and>
   action_functor channel cellA (Vec 1 0 0) argsA_bottom (Vec 1 1 0) = Inr (Vec 3 1 0) \<and>
   action_functor
     (channel\<lparr>rho := (\<lambda>f. 9), u_var := uniform_variable 8, v_var := None, w_var := None,
              interpCoeffs := (\<lambda>f one_is_elem advector. (1, 0))\<rparr>)
     cellA (Vec 8 0 0) argsA_bottom (Vec 1 1 0) = Inr (Vec 3 1 0) \<and>
   elemFaceInfo channel cellA = [argsA_left] @ argsA_bottom # [argsA_top, argsA_right] \<and>
   loopOverElemFaceInfo channel cellA (cell_velocity channel cellA) [argsA_left] zero_vec
     = Inr (Vec 1 1 0) \<and>
   loopOverElemFaceInfo channel cellA (cell_velocity channel cellA) [argsA_top, argsA_right]
     (Vec 3 1 0) = Inr (Vec 5 7 0) \<and>
   coeffCalculator channel cellA = Inr (Vec 5 7 0)"
proof -
  have h1: "NDEBUG channel \<or> functor_assertions_hold channel cellA argsA_bottom"
    by (simp add: channel_assertions)
  have h2: "onBoundary channel (fi argsA_bottom)"
    by (simp add: example_defs)
  have h3: "boundaryIDs (fi argsA_bottom) = [] @ 2 # []"
    by (simp add: example_defs)
  have h4: "\<forall>t\<in>set []. unrecognized channel t"
    by simp
  have h5: "2 \<in> no_slip_wall_boundaries channel"
    by (simp add: example_defs)
  have d: "normal_distance argsA_bottom = 1"
    by (simp add: example_defs evaluation)
  then have h6: "normal_distance argsA_bottom \<noteq> 0"
    by simp
  have v: "action_functor channel cellA (Vec 1 0 0) argsA_bottom (Vec 1 1 0) = Inr (Vec 3 1 0)"
    by (simp add: example_defs evaluation)
  have n: "normal (fi argsA_bottom) = neg_vec (unit_axis 1)"
    by (simp add: example_defs unit_axis_def zero_vec_def)
  have f: "elemFaceInfo channel cellA = [argsA_left] @ argsA_bottom # [argsA_top, argsA_right]"
    by (simp add: example_defs)
  have e: "loopOverElemFaceInfo channel cellA (cell_velocity channel cellA) [argsA_left] zero_vec
     = Inr (Vec 1 1 0)"
    by (simp add: cell_velocity_def example_defs evaluation)
  have l: "loopOverElemFaceInfo channel cellA (cell_velocity channel cellA)
      [argsA_top, argsA_right] (Vec 3 1 0) = Inr (Vec 5 7 0)"
    by (simp add: cell_velocity_def example_defs evaluation)
  from no_slip_wall_contribution[where elem_velocity = "Vec 1 0 0" and coeff = "Vec 1 1 0"
      and r = "\<lambda>f. 9" and u = "uniform_variable 8" and v = None and w = None
      and ic = "\<lambda>f one_is_elem advector. (1, 0)" and ev' = "Vec 8 0 0"
      and earlier = "[argsA_left]" and later = "[argsA_top, argsA_right]",
      OF h1 h2 h3 h4 h5 h6]
  show ?thesis
    using v n d h2 h3 h5 f e l channel_assertions(2) by auto
qed

text \<open>
  The claim as the specification states it speaks of every boundary face on a no-slip wall.
  A face of \<open>cellA\<close> with the normal \<open>(0, -1)\<close> that is on the inlet 1 and on the wall 2 is
  on a no-slip wall, yet the scan stops at the inlet id, which comes first: the functor adds
  the flow term 2 to both components, the one along the normal included, where the no-slip
  term of that component is 0.
\<close>

theorem no_slip_wall_counterexample:
  "functor_assertions_hold channel cellA argsA_bottom_corner \<and>
   onBoundary channel (fi argsA_bottom_corner) \<and>
   boundaryIDs (fi argsA_bottom_corner) = [1, 2] \<and>
   2 \<in> no_slip_wall_boundaries channel \<and>
   normal (fi argsA_bottom_corner) = neg_vec (unit_axis 1) \<and>
   mu channel (fi argsA_bottom_corner) * norm_vec (surface_vector argsA_bottom_corner) /
     normal_distance argsA_bottom_corner * (1 - (component (rc_normal argsA_bottom_corner) 1)\<^sup>2)
     = 0 \<and>
   action_functor channel cellA (Vec 1 0 0) argsA_bottom_corner (Vec 0 0 0) = Inr (Vec 2 2 0)"
  by (simp add: example_defs evaluation unit_axis_def argsA_bottom_corner_def)

text \<open>
  Claim C2, as the code has it. On a boundary face whose scan stops at an id of a symmetry
  boundary, that is, whose first boundary id in any of the four sets is a symmetry id and
  no wall or flow id (which are tested first), the functor adds to every component \<open>i\<close>
  below the dimension the diffusive term \<open>2 * mu * |S| / |(x\<^sub>f - x\<^sub>C) \<sqdot> n| * n\<^sub>i\<^sup>2\<close>, where
  \<open>|S|\<close> is the magnitude of the area-weighted surface vector and the divisor the normal
  distance from the cell centroid to the face centroid (\<open>normal_distance\<close>). The factor
  \<open>n\<^sub>i\<^sup>2\<close> confines the term to the normal direction: a component in which the normal
  vanishes, that is, one tangential to the symmetry plane, is left as it was. The result
  does not depend on the density, on any velocity or on the advective interpolation
  weights: there is no advective contribution. When the face is a face of the cell and the
  faces before it have left the coefficient \<open>coeff\<close>, the calculator goes on to the faces
  after it with the coefficient the functor returned.
\<close>

theorem symmetry_contribution:
  assumes asserts: "NDEBUG k \<or> functor_assertions_hold k el a"
    and bnd: "onBoundary k (fi a)"
    and ids: "boundaryIDs (fi a) = pre @ b # post"
    and pre: "\<forall>t\<in>set pre. unrecognized k t"
    and b: "b \<notin> no_slip_wall_boundaries k" "b \<notin> slip_wall_boundaries k"
      "b \<notin> flow_boundaries k" "b \<in> symmetry_boundaries k"
    and dist: "normal_distance a \<noteq> 0"
  shows "\<exists>c. action_functor k el elem_velocity a coeff = Inr c \<and>
      (\<forall>i<3. component c i =
         (if i < dim k
          then component coeff i +
               2 * mu k (fi a) * norm_vec (surface_vector a) / normal_distance a *
                 (component (rc_normal a) i)\<^sup>2
          else component coeff i)) \<and>
      (\<forall>i<3. component (normal (fi a)) i = 0 \<longrightarrow> component c i = component coeff i) \<and>
      action_functor (k\<lparr>rho := r, u_var := u, v_var := v, w_var := w, interpCoeffs := ic\<rparr>)
         el ev' a coeff = Inr c \<and>
      (elemFaceInfo k el = earlier @ a # later \<and>
       loopOverElemFaceInfo k el (cell_velocity k el) earlier zero_vec = Inr coeff \<longrightarrow>
       coeffCalculator k el = loopOverElemFaceInfo k el (cell_velocity k el) later c)"
proof -
  let ?k' = "k\<lparr>rho := r, u_var := u, v_var := v, w_var := w, interpCoeffs := ic\<rparr>"
  let ?t = "\<lambda>i. 2 * mu k (fi a) * norm_vec (surface_vector a) / normal_distance a *
                 component (rc_normal a) i * component (rc_normal a) i"
  let ?c = "add_range (dim k) ?t coeff"
  have pre': "\<forall>t\<in>set pre. unrecognized ?k' t"
    using pre by (simp add: unrecognized_def)
  have a': "NDEBUG ?k' \<or> functor_assertions_hold ?k' el a"
    using asserts by (simp add: functor_assertions_hold_def normal_is_surface_vector_def)
  have 1: "action_functor k el ev a coeff = Inr ?c" for ev
    using b dist
    by (simp add: action_functor_boundary[OF asserts bnd] ids boundary_ids_loop_skip[OF pre]
        quotient_defined_def normal_distance_def)
  have 2: "action_functor ?k' el ev' a coeff = Inr ?c"
    using b bnd dist
    by (simp add: action_functor_boundary[OF a'] ids boundary_ids_loop_skip[OF pre']
        quotient_defined_def normal_distance_def)
  have 3: "\<forall>i<3. component ?c i =
      (if i < dim k
       then component coeff i + 2 * mu k (fi a) * norm_vec (surface_vector a) /
              normal_distance a * (component (rc_normal a) i)\<^sup>2
       else component coeff i)"
    by (simp add: component_add_range power2_eq_square)
  have 4: "\<forall>i<3. component (normal (fi a)) i = 0 \<longrightarrow> component ?c i = component coeff i"
    by (auto simp: component_add_range rc_normal_def component_neg_vec)
  have 5: "elemFaceInfo k el = earlier @ a # later \<and>
       loopOverElemFaceInfo k el (cell_velocity k el) earlier zero_vec = Inr coeff \<longrightarrow>
       coeffCalculator k el = loopOverElemFaceInfo k el (cell_velocity k el) later ?c"
    using calculator_at_face[OF _ _ 1] by blast
  show ?thesis using 1 2 3 4 5 by blast
qed

text \<open>
  In the channel, the top face of \<open>cellA\<close> (normal \<open>(0, 1)\<close>, area 2, distance 1, ids 0
  and 4) is its third face. The two faces before it leave \<open>(3, 1)\<close>; the symmetry plane
  adds 4 to the second component and nothing to the first; the interior face after it
  brings the coefficient to \<open>(5, 7)\<close>.
\<close>

theorem symmetry_contribution_witness:
  "functor_assertions_hold channel cellA argsA_top \<and>
   onBoundary channel (fi argsA_top) \<and>
   boundaryIDs (fi argsA_top) = [0] @ 4 # [] \<and>
   unrecognized channel 0 \<and>
   4 \<in> symmetry_boundaries channel \<and>
   normal_distance argsA_top = 1 \<and>
   action_functor channel cellA (Vec 1 0 0) argsA_top (Vec 3 1 0) = Inr (Vec 3 5 0) \<and>
   action_functor
     (channel\<lparr>rho := (\<lambda>f. 9), u_var := uniform_variable 8, v_var := None, w_var := None,
              interpCoeffs := (\<lambda>f one_is_elem advector. (1, 0))\<rparr>)
     cellA (Vec 8 0 0) argsA_top (Vec 3 1 0) = Inr (Vec 3 5 0) \<and>
   elemFaceInfo channel cellA = [argsA_left, argsA_bottom] @ argsA_top # [argsA_right] \<and>
   loopOverElemFaceInfo channel cellA (cell_velocity channel cellA) [argsA_left, argsA_bottom]
     zero_vec = Inr (Vec 3 1 0) \<and>
   loopOverElemFaceInfo channel cellA (cell_velocity channel cellA) [argsA_right] (Vec 3 5 0)
     = Inr (Vec 5 7 0) \<and>
   coeffCalculator channel cellA = Inr (Vec 5 7 0)"
proof -
  have h1: "NDEBUG channel \<or> functor_assertions_hold channel cellA argsA_top"
    by (simp add: channel_assertions)
  have h2: "onBoundary channel (fi argsA_top)"
    by (simp add: example_defs)
  have h3: "boundaryIDs (fi argsA_top) = [0] @ 4 # []"
    by (simp add: example_defs)
  have u0: "unrecognized channel 0"
    by (simp add: example_defs unrecognized_def)
  then have h4: "\<forall>t\<in>set [0]. unrecognized channel t"
    by simp
  have h5: "4 \<notin> no_slip_wall_boundaries channel" "4 \<notin> slip_wall_boundaries channel"
    "4 \<notin> flow_boundaries channel" "4 \<in> symmetry_boundaries channel"
    by (simp_all add: example_defs)
  have d: "normal_distance argsA_top = 1"
    by (simp add: example_defs evaluation)
  then have h6: "normal_distance argsA_top \<noteq> 0"
    by simp
  have v: "action_functor channel cellA (Vec 1 0 0) argsA_top (Vec 3 1 0) = Inr (Vec 3 5 0)"
    by (simp add: example_defs evaluation)
  have f: "elemFaceInfo channel cellA = [argsA_left, argsA_bottom] @ argsA_top # [argsA_right]"
    by (simp add: example_defs)
  have e: "loopOverElemFaceInfo channel cellA (cell_velocity channel cellA)
      [argsA_left, argsA_bottom] zero_vec = Inr (Vec 3 1 0)"
    by (simp add: cell_velocity_def example_defs evaluation)
  have l: "loopOverElemFaceInfo channel cellA (cell_velocity channel cellA) [argsA_right]
      (Vec 3 5 0) = Inr (Vec 5 7 0)"
    by (simp add: cell_velocity_def example_defs evaluation)
  from symmetry_contribution[where elem_velocity = "Vec 1 0 0" and coeff = "Vec 3 1 0"
      and r = "\<lambda>f. 9" and u = "uniform_variable 8" and v = None and w = None
      and ic = "\<lambda>f one_is_elem advector. (1, 0)" and ev' = "Vec 8 0 0"
      and earlier = "[argsA_left, argsA_bottom]" and later = "[argsA_right]",
      OF h1 h2 h3 h4 h5 h6]
  show ?thesis
    using v u0 d h2 h3 h5 f e l channel_assertions(3) by auto
qed

text \<open>
  The claim as the specification states it speaks of every boundary face on a symmetry
  boundary. The bottom face of \<open>cellB\<close> (normal \<open>(0, -1)\<close>) carries the ids 0, 2, 3 and 4
  and so is on the symmetry boundary 4, yet the scan stops at the no-slip id 2: the functor
  adds the no-slip term, 2 to the first component and nothing to the second, where the
  symmetry terms are 0 and 4.
\<close>

theorem symmetry_counterexample:
  "functor_assertions_hold channel cellB argsB_bottom \<and>
   onBoundary channel (fi argsB_bottom) \<and>
   boundaryIDs (fi argsB_bottom) = [0, 2, 3, 4] \<and>
   4 \<in> symmetry_boundaries channel \<and>
   2 * mu channel (fi argsB_bottom) * norm_vec (surface_vector argsB_bottom) /
     normal_distance argsB_bottom * (component (rc_normal argsB_bottom) 0)\<^sup>2 = 0 \<and>
   2 * mu channel (fi argsB_bottom) * norm_vec (surface_vector argsB_bottom) /
     normal_distance argsB_bottom * (component (rc_normal argsB_bottom) 1)\<^sup>2 = 4 \<and>
   action_functor channel cellB (Vec 1 0 0) argsB_bottom (Vec 0 0 0) = Inr (Vec 2 0 0)"
  by (simp add: example_defs evaluation)

text \<open>
  Claim C5, as the code has it. On a boundary face whose scan stops at an id of a flow
  boundary, that is, whose first boundary id in any of the four sets is a flow id and no
  wall id (the walls are tested first), the functor adds one and the same term \<open>t\<close> to every
  component below the dimension. The term is the advective part, the face density times
  the boundary-face velocity dotted with the surface vector, times the first (cell-side)
  weight of the advected interpolation at that velocity, plus, exactly when the id is not
  a fully-developed-flow boundary, the diffusive part \<open>mu * |S| / |x\<^sub>f - x\<^sub>C|\<close>, the divisor
  being the distance from the cell centroid to the face centroid (\<open>centroid_distance\<close>).
  The boundary-face velocity is written out: the boundary-face value of \<open>u\<close>, that of \<open>v\<close>
  and that of \<open>w\<close>, zero where the variable is absent. When the face is a face of the cell
  and the faces before it have left the coefficient \<open>coeff\<close>, the calculator goes on to the
  faces after it with the coefficient the functor returned.
\<close>

theorem flow_boundary_contribution:
  assumes asserts: "NDEBUG k \<or> functor_assertions_hold k el a"
    and bnd: "onBoundary k (fi a)"
    and ids: "boundaryIDs (fi a) = pre @ b # post"
    and pre: "\<forall>t\<in>set pre. unrecognized k t"
    and b: "b \<notin> no_slip_wall_boundaries k" "b \<notin> slip_wall_boundaries k"
      "b \<in> flow_boundaries k"
    and dist: "b \<in> fully_developed_flow_boundaries k \<or> centroid_distance a \<noteq> 0"
  shows "\<exists>c t face_velocity.
      action_functor k el elem_velocity a coeff = Inr c \<and>
      face_velocity =
        Vec (getBoundaryFaceValue (u_var k) (fi a))
            (case v_var k of None \<Rightarrow> 0 | Some y \<Rightarrow> getBoundaryFaceValue y (fi a))
            (case w_var k of None \<Rightarrow> 0 | Some z \<Rightarrow> getBoundaryFaceValue z (fi a)) \<and>
      t = rho k (fi a) * dot face_velocity (surface_vector a) *
            fst (interpCoeffs k (fi a) (elem_has_info a) face_velocity) +
          (if b \<in> fully_developed_flow_boundaries k then 0
           else mu k (fi a) * norm_vec (surface_vector a) / centroid_distance a) \<and>
      (\<forall>i<3. component c i = (if i < dim k then component coeff i + t else component coeff i)) \<and>
      (elemFaceInfo k el = earlier @ a # later \<and>
       loopOverElemFaceInfo k el (cell_velocity k el) earlier zero_vec = Inr coeff \<longrightarrow>
       coeffCalculator k el = loopOverElemFaceInfo k el (cell_velocity k el) later c)"
proof -
  let ?fv = "boundary_face_velocity k (fi a)"
  let ?t = "rho k (fi a) * dot ?fv (surface_vector a) *
            fst (interpCoeffs k (fi a) (elem_has_info a) ?fv) +
          (if b \<in> fully_developed_flow_boundaries k then 0
           else mu k (fi a) * norm_vec (surface_vector a) / centroid_distance a)"
  let ?c = "add_range (dim k) (\<lambda>i. ?t) coeff"
  have 1: "action_functor k el ev a coeff = Inr ?c" for ev
    using b dist
    by (auto simp: action_functor_boundary[OF asserts bnd] ids boundary_ids_loop_skip[OF pre]
        Let_def gather_explicit boundary_face_velocity_def dot_scale quotient_defined_def
        centroid_distance_def)
  have 3: "\<forall>i<3. component ?c i = (if i < dim k then component coeff i + ?t else component coeff i)"
    by (simp add: component_add_range)
  have 5: "elemFaceInfo k el = earlier @ a # later \<and>
       loopOverElemFaceInfo k el (cell_velocity k el) earlier zero_vec = Inr coeff \<longrightarrow>
       coeffCalculator k el = loopOverElemFaceInfo k el (cell_velocity k el) later ?c"
    using calculator_at_face[OF _ _ 1] by blast
  have fv: "?fv =
        Vec (getBoundaryFaceValue (u_var k) (fi a))
            (case v_var k of None \<Rightarrow> 0 | Some y \<Rightarrow> getBoundaryFaceValue y (fi a))
            (case w_var k of None \<Rightarrow> 0 | Some z \<Rightarrow> getBoundaryFaceValue z (fi a))"
    by (simp add: boundary_face_velocity_def)
  show ?thesis
    apply (rule exI[of _ ?c], rule exI[of _ ?t], rule exI[of _ ?fv])
    using 1 3 5 fv by blast
qed

text \<open>
  In the channel with a cross flow, the velocity is \<open>(1, 3)\<close> and the top face of \<open>cellA\<close>
  is an outlet with the surface vector \<open>(0, 2)\<close>, the third face of the cell. The two faces
  before it leave \<open>(3, 1)\<close>; the outlet adds \<open>1 * 6 * 1/2 + 1 * 2 / 1 = 5\<close> to both
  components; the interior face after it brings the coefficient to \<open>(10, 8)\<close>.
\<close>

theorem flow_boundary_contribution_witness:
  "functor_assertions_hold crossflow_channel cellA argsA_top_outlet \<and>
   onBoundary crossflow_channel (fi argsA_top_outlet) \<and>
   boundaryIDs (fi argsA_top_outlet) = [] @ 1 # [] \<and>
   1 \<in> flow_boundaries crossflow_channel \<and>
   1 \<notin> fully_developed_flow_boundaries crossflow_channel \<and>
   centroid_distance argsA_top_outlet = 1 \<and>
   action_functor crossflow_channel cellA (Vec 1 3 0) argsA_top_outlet (Vec 3 1 0)
     = Inr (Vec 8 6 0) \<and>
   elemFaceInfo crossflow_channel cellA
     = [argsA_left, argsA_bottom] @ argsA_top_outlet # [argsA_right] \<and>
   loopOverElemFaceInfo crossflow_channel cellA (cell_velocity crossflow_channel cellA)
     [argsA_left, argsA_bottom] zero_vec = Inr (Vec 3 1 0) \<and>
   loopOverElemFaceInfo crossflow_channel cellA (cell_velocity crossflow_channel cellA)
     [argsA_right] (Vec 8 6 0) = Inr (Vec 10 8 0) \<and>
   coeffCalculator crossflow_channel cellA = Inr (Vec 10 8 0)"
proof -
  let ?k = crossflow_channel
  let ?a = argsA_top_outlet
  have as: "functor_assertions_hold ?k cellA ?a"
    by (simp add: crossflow_channel_def argsA_top_outlet_def example_defs evaluation)
  then have h1: "NDEBUG ?k \<or> functor_assertions_hold ?k cellA ?a"
    by simp
  have h2: "onBoundary ?k (fi ?a)"
    by (simp add: crossflow_channel_def argsA_top_outlet_def example_defs)
  have h3: "boundaryIDs (fi ?a) = [] @ 1 # []"
    by (simp add: argsA_top_outlet_def example_defs)
  have h4: "\<forall>t\<in>set []. unrecognized ?k t"
    by simp
  have h5: "1 \<notin> no_slip_wall_boundaries ?k" "1 \<notin> slip_wall_boundaries ?k"
    "1 \<in> flow_boundaries ?k"
    by (simp_all add: crossflow_channel_def example_defs)
  have fd: "1 \<notin> fully_developed_flow_boundaries ?k"
    by (simp add: crossflow_channel_def example_defs)
  have d: "centroid_distance ?a = 1"
    by (simp add: argsA_top_outlet_def example_defs evaluation)
  then have h6: "1 \<in> fully_developed_flow_boundaries ?k \<or> centroid_distance ?a \<noteq> 0"
    by simp
  have f: "elemFaceInfo ?k cellA = [argsA_left, argsA_bottom] @ ?a # [argsA_right]"
    by (simp add: crossflow_channel_def example_defs)
  have e: "loopOverElemFaceInfo ?k cellA (cell_velocity ?k cellA) [argsA_left, argsA_bottom]
      zero_vec = Inr (Vec 3 1 0)"
    by (simp add: cell_velocity_def crossflow_channel_def example_defs evaluation)
  have l: "loopOverElemFaceInfo ?k cellA (cell_velocity ?k cellA) [argsA_right] (Vec 8 6 0)
      = Inr (Vec 10 8 0)"
    by (simp add: cell_velocity_def crossflow_channel_def example_defs evaluation)
  have t: "rho ?k (fi ?a) *
        dot (Vec (getBoundaryFaceValue (u_var ?k) (fi ?a))
                 (case v_var ?k of None \<Rightarrow> 0 | Some y \<Rightarrow> getBoundaryFaceValue y (fi ?a))
                 (case w_var ?k of None \<Rightarrow> 0 | Some z \<Rightarrow> getBoundaryFaceValue z (fi ?a)))
            (surface_vector ?a) *
        fst (interpCoeffs ?k (fi ?a) (elem_has_info ?a)
               (Vec (getBoundaryFaceValue (u_var ?k) (fi ?a))
                 (case v_var ?k of None \<Rightarrow> 0 | Some y \<Rightarrow> getBoundaryFaceValue y (fi ?a))
                 (case w_var ?k of None \<Rightarrow> 0 | Some z \<Rightarrow> getBoundaryFaceValue z (fi ?a)))) +
      (if 1 \<in> fully_developed_flow_boundaries ?k then 0
       else mu ?k (fi ?a) * norm_vec (surface_vector ?a) / centroid_distance ?a) = 5"
    by (simp add: crossflow_channel_def argsA_top_outlet_def example_defs evaluation)
  from flow_boundary_contribution[where elem_velocity = "Vec 1 3 0" and coeff = "Vec 3 1 0"
      and earlier = "[argsA_left, argsA_bottom]" and later = "[argsA_right]",
      OF h1 h2 h3 h4 h5 h6]
  obtain c t' fv where c: "action_functor ?k cellA (Vec 1 3 0) ?a (Vec 3 1 0) = Inr c"
    and fv: "fv =
        Vec (getBoundaryFaceValue (u_var ?k) (fi ?a))
            (case v_var ?k of None \<Rightarrow> 0 | Some y \<Rightarrow> getBoundaryFaceValue y (fi ?a))
            (case w_var ?k of None \<Rightarrow> 0 | Some z \<Rightarrow> getBoundaryFaceValue z (fi ?a))"
    and t': "t' = rho ?k (fi ?a) * dot fv (surface_vector ?a) *
            fst (interpCoeffs ?k (fi ?a) (elem_has_info ?a) fv) +
          (if 1 \<in> fully_developed_flow_boundaries ?k then 0
           else mu ?k (fi ?a) * norm_vec (surface_vector ?a) / centroid_distance ?a)"
    and comps': "\<forall>i<3. component c i =
       (if i < dim ?k then component (Vec 3 1 0) i + t' else component (Vec 3 1 0) i)"
    and calc: "elemFaceInfo ?k cellA = [argsA_left, argsA_bottom] @ ?a # [argsA_right] \<and>
       loopOverElemFaceInfo ?k cellA (cell_velocity ?k cellA) [argsA_left, argsA_bottom] zero_vec
         = Inr (Vec 3 1 0) \<longrightarrow>
       coeffCalculator ?k cellA =
         loopOverElemFaceInfo ?k cellA (cell_velocity ?k cellA) [argsA_right] c"
    by (elim exE conjE)
  have "t' = 5"
    using t unfolding t' fv .
  with comps' have comps: "\<forall>i<3. component c i =
       (if i < dim ?k then component (Vec 3 1 0) i + 5 else component (Vec 3 1 0) i)"
    by simp
  have "c = Vec 8 6 0"
  proof (rule vec_eqI)
    fix i :: nat
    assume "i < 3"
    then have "i = 0 \<or> i = 1 \<or> i = 2" by auto
    then show "component c i = component (Vec 8 6 0) i"
      using comps by (auto simp: crossflow_channel_def example_defs)
  qed
  then show ?thesis
    using c calc d h2 h3 h5 fd as f e l by simp
qed

text \<open>
  The claim as the specification states it speaks of every boundary face on a flow boundary.
  In the channel whose inlet boundary 1 carries a slip-wall condition too, the left face of
  \<open>cellA\<close> is on the flow boundary 1, yet the slip test comes first: the functor leaves the
  coefficient as it was, where the flow term is 1.
\<close>

theorem flow_boundary_counterexample:
  "functor_assertions_hold slip_inlet_channel cellA argsA_left \<and>
   onBoundary slip_inlet_channel (fi argsA_left) \<and>
   boundaryIDs (fi argsA_left) = [1] \<and>
   1 \<in> flow_boundaries slip_inlet_channel \<and>
   1 \<notin> fully_developed_flow_boundaries slip_inlet_channel \<and>
   rho slip_inlet_channel (fi argsA_left) *
     dot (boundary_face_velocity slip_inlet_channel (fi argsA_left)) (surface_vector argsA_left) *
     fst (interpCoeffs slip_inlet_channel (fi argsA_left) (elem_has_info argsA_left)
            (boundary_face_velocity slip_inlet_channel (fi argsA_left))) +
     mu slip_inlet_channel (fi argsA_left) * norm_vec (surface_vector argsA_left) /
       centroid_distance argsA_left = 1 \<and>
   action_functor slip_inlet_channel cellA (Vec 1 0 0) argsA_left (Vec 0 0 0) = Inr (Vec 0 0 0)"
  by (simp add: slip_inlet_channel_def boundary_face_velocity_def example_defs evaluation)

text \<open>
  Claim C10. On a boundary face the functor applies exactly one contribution, the one of the
  first boundary id, in iteration order, that is in any of the four sets: the ids before it
  and after it do not matter, since the result is the result of the scan over that id alone.
  Within the id the categories are tested in the order no-slip wall, slip wall, flow,
  symmetry, and the first that holds decides: for a no-slip id it does not matter whether
  the id is also in the slip, flow or symmetry sets (the result is the same with those sets
  emptied); a slip id that is not a no-slip id leaves the coefficient as it was; for a flow
  id that is no wall id it does not matter whether it is a symmetry id too. The functor
  returns there, which ends the work on this face; the calculator goes on to the next face.
\<close>

theorem first_match_decides:
  assumes asserts: "NDEBUG k \<or> functor_assertions_hold k el a"
    and bnd: "onBoundary k (fi a)"
    and ids: "boundaryIDs (fi a) = pre @ b # post"
    and pre: "\<forall>t\<in>set pre. unrecognized k t"
    and b: "\<not> unrecognized k b"
  shows "\<exists>r. action_functor k el elem_velocity a coeff = r \<and>
      boundary_ids_loop k a (rc_normal a) (rc_centroid_of a) (mu k (fi a)) (rho k (fi a)) [b] coeff
        = Some r \<and>
      (b \<in> no_slip_wall_boundaries k \<longrightarrow>
         boundary_ids_loop
           (k\<lparr>slip_wall_boundaries := {}, flow_boundaries := {}, symmetry_boundaries := {}\<rparr>)
           a (rc_normal a) (rc_centroid_of a) (mu k (fi a)) (rho k (fi a)) [b] coeff = Some r) \<and>
      (b \<notin> no_slip_wall_boundaries k \<and> b \<in> slip_wall_boundaries k \<longrightarrow> r = Inr coeff) \<and>
      (b \<notin> no_slip_wall_boundaries k \<and> b \<notin> slip_wall_boundaries k \<and> b \<in> flow_boundaries k \<longrightarrow>
         boundary_ids_loop (k\<lparr>symmetry_boundaries := {}\<rparr>)
           a (rc_normal a) (rc_centroid_of a) (mu k (fi a)) (rho k (fi a)) [b] coeff = Some r)"
proof -
  have "\<exists>t\<in>set [b]. \<not> unrecognized k t" using b by simp
  from boundary_ids_loop_some[OF this]
  obtain r where r: "boundary_ids_loop k a (rc_normal a) (rc_centroid_of a) (mu k (fi a))
      (rho k (fi a)) [b] coeff = Some r" by blast
  have eq: "boundary_ids_loop k a (rc_normal a) (rc_centroid_of a) (mu k (fi a))
      (rho k (fi a)) (pre @ b # post) coeff = Some r"
    using r b by (simp add: boundary_ids_loop_skip[OF pre] unrecognized_def split: if_splits)
  have 1: "action_functor k el elem_velocity a coeff = r"
    by (simp add: action_functor_boundary[OF asserts bnd] ids eq)
  show ?thesis using 1 r by (auto simp: Let_def gather_def split: if_splits)
qed

text \<open>
  In the channel, the bottom face of \<open>cellB\<close> carries the ids 0, 2, 3 and 4: no condition,
  no-slip wall, slip wall, symmetry. The no-slip contribution alone is applied.
\<close>

theorem first_match_decides_witness:
  "functor_assertions_hold channel cellB argsB_bottom \<and>
   onBoundary channel (fi argsB_bottom) \<and>
   boundaryIDs (fi argsB_bottom) = [0] @ 2 # [3, 4] \<and>
   unrecognized channel 0 \<and> \<not> unrecognized channel 2 \<and>
   action_functor channel cellB (Vec 1 0 0) argsB_bottom (Vec 0 0 0) = Inr (Vec 2 0 0) \<and>
   boundary_ids_loop channel argsB_bottom (rc_normal argsB_bottom) (rc_centroid_of argsB_bottom)
     (mu channel (fi argsB_bottom)) (rho channel (fi argsB_bottom)) [2] (Vec 0 0 0)
     = Some (Inr (Vec 2 0 0))"
proof -
  have h1: "NDEBUG channel \<or> functor_assertions_hold channel cellB argsB_bottom"
    by (simp add: channel_assertions)
  have h2: "onBoundary channel (fi argsB_bottom)"
    by (simp add: example_defs)
  have h3: "boundaryIDs (fi argsB_bottom) = [0] @ 2 # [3, 4]"
    by (simp add: example_defs)
  have u0: "unrecognized channel 0"
    by (simp add: example_defs unrecognized_def)
  then have h4: "\<forall>t\<in>set [0]. unrecognized channel t"
    by simp
  have h5: "\<not> unrecognized channel 2"
    by (simp add: example_defs unrecognized_def)
  have v: "action_functor channel cellB (Vec 1 0 0) argsB_bottom (Vec 0 0 0) = Inr (Vec 2 0 0)"
    by (simp add: example_defs evaluation)
  from first_match_decides[where elem_velocity = "Vec 1 0 0" and coeff = "Vec 0 0 0",
      OF h1 h2 h3 h4 h5]
  show ?thesis
    using v u0 h2 h3 h5 channel_assertions(4) by auto
qed

text \<open>
  Claim C8, as the code has it. When the faces of a cell are visited and the first face on
  which the functor does not return normally is a boundary face none of whose boundary ids
  is in any of the four sets, the coefficient calculator ends in the fatal error, and the
  error carries the name of the kernel object and the first boundary id of that face. The
  cell is not part of the error.
\<close>

theorem unresolved_boundary_face_aborts:
  assumes faces: "elemFaceInfo k el = earlier @ a # later"
    and earlier: "\<forall>x\<in>set earlier. face_resolves k el x"
    and asserts: "NDEBUG k \<or> functor_assertions_hold k el a"
    and bnd: "onBoundary k (fi a)"
    and ids: "boundaryIDs (fi a) = b # rest"
    and unrec: "\<forall>t\<in>set (boundaryIDs (fi a)). unrecognized k t"
  shows "coeffCalculator k el = Inl (NotCompletelyBounded (name k) b)"
proof -
  let ?ev = "gather k (\<lambda>i var. getElemValue var el)"
  obtain c where c: "loopOverElemFaceInfo k el ?ev (earlier @ a # later) zero_vec =
      loopOverElemFaceInfo k el ?ev (a # later) c"
    using loop_over_resolved_faces[OF earlier] by blast
  have "action_functor k el ?ev a c = Inl (not_completely_bounded k (fi a))"
    by (simp add: action_functor_boundary[OF asserts bnd] boundary_ids_loop_none[OF unrec])
  then have "action_functor k el ?ev a c = Inl (NotCompletelyBounded (name k) b)"
    by (simp add: not_completely_bounded_def ids)
  then show ?thesis
    by (simp add: coeffCalculator_def faces c)
qed

text \<open>
  In the channel whose ends carry no flow condition, the last face of \<open>cellB\<close> is the
  first unresolved one.
\<close>

theorem unresolved_boundary_face_aborts_witness:
  "elemFaceInfo open_channel cellB = [argsB_left, argsB_bottom, argsB_top] @ argsB_right # [] \<and>
   face_resolves open_channel cellB argsB_left \<and>
   face_resolves open_channel cellB argsB_bottom \<and>
   face_resolves open_channel cellB argsB_top \<and>
   functor_assertions_hold open_channel cellB argsB_right \<and>
   onBoundary open_channel (fi argsB_right) \<and>
   boundaryIDs (fi argsB_right) = 1 # [] \<and>
   unrecognized open_channel 1 \<and>
   coeffCalculator open_channel cellB = Inl (NotCompletelyBounded ''momentum_x'' 1)"
proof -
  have h1: "elemFaceInfo open_channel cellB =
      [argsB_left, argsB_bottom, argsB_top] @ argsB_right # []"
    by (simp add: example_defs)
  have r: "face_resolves open_channel cellB argsB_left"
    "face_resolves open_channel cellB argsB_bottom"
    "face_resolves open_channel cellB argsB_top"
    by (simp_all add: face_resolves_def example_defs evaluation)
  then have h2: "\<forall>x\<in>set [argsB_left, argsB_bottom, argsB_top]. face_resolves open_channel cellB x"
    by simp
  have a: "functor_assertions_hold open_channel cellB argsB_right"
    by (simp add: example_defs evaluation)
  then have h3: "NDEBUG open_channel \<or> functor_assertions_hold open_channel cellB argsB_right"
    by simp
  have h4: "onBoundary open_channel (fi argsB_right)"
    by (simp add: example_defs)
  have h5: "boundaryIDs (fi argsB_right) = 1 # []"
    by (simp add: example_defs)
  have u: "unrecognized open_channel 1"
    by (simp add: example_defs unrecognized_def)
  then have h6: "\<forall>t\<in>set (boundaryIDs (fi argsB_right)). unrecognized open_channel t"
    by (simp add: h5)
  have n: "name open_channel = ''momentum_x''"
    by (simp add: example_defs)
  from unresolved_boundary_face_aborts[OF h1 h2 h3 h4 h5 h6]
  show ?thesis
    using h1 r a h4 h5 u by (simp add: n)
qed

text \<open>
  The claim as the specification states it says that the error identifies the offending
  cell. It does not: in the channel whose ends carry no flow condition, the two cells are
  different and the calculator ends in one and the same error for both.
\<close>

theorem fatal_error_does_not_identify_cell:
  "cellA \<noteq> cellB \<and>
   coeffCalculator open_channel cellA = Inl (NotCompletelyBounded ''momentum_x'' 1) \<and>
   coeffCalculator open_channel cellB = Inl (NotCompletelyBounded ''momentum_x'' 1)"
  by (simp add: coeffCalculator_def not_completely_bounded_def example_defs evaluation)

section \<open>Properties of the coefficient cache\<close>

text \<open>
  Claim C7. Let a lookup of the cell \<open>el\<close> by the kernel object \<open>k\<close> return the coefficient
  \<open>c\<close>. If the cache had no entry for the cell on this thread, \<open>c\<close> is what the calculator
  computed. After any number of further lookups and no clear, a lookup of the same cell on
  the same thread of the same application returns \<open>c\<close> again and leaves the cache as it is,
  whatever the fields the calculator would read have become meanwhile (\<open>k'\<close> agrees with
  \<open>k\<close> on the application and the thread only): the calculator is not run again. A clear
  then succeeds, leaves no entry for the calling thread and every other thread's entries as
  they were, and the next lookup returns exactly what the calculator computes at that
  moment, be it a coefficient or the fatal error.
\<close>

theorem rcCoeff_memoizes:
  assumes first: "rcCoeff k s el = Inr (c, s1)"
    and no_clear: "lookups_only s1 s2"
    and same: "app k' = app k" "tid k' = tid k"
  shows "rcCoeff k' s2 el = Inr (c, s2) \<and>
     (cached s (app k) (tid k) el = None \<longrightarrow> coeffCalculator k el = Inr c) \<and>
     (\<exists>s3. clearRCCoeffs k s2 = Inr s3 \<and>
        (\<forall>e. cached s3 (app k) (tid k) e = None) \<and>
        (\<forall>ap t e. ap \<noteq> app k \<or> t \<noteq> tid k \<longrightarrow> cached s3 ap t e = cached s2 ap t e) \<and>
        map_sum id fst (rcCoeff k' s3 el) = coeffCalculator k' el)"
proof -
  have c2: "cached s2 (app k) (tid k) el = Some c"
    using lookups_only_keeps[OF no_clear rcCoeff_stores[OF first]] .
  have 1: "rcCoeff k' s2 el = Inr (c, s2)"
    using c2 same by (simp add: rcCoeff_hit)
  have 2: "cached s (app k) (tid k) el = None \<longrightarrow> coeffCalculator k el = Inr c"
    using first by (cases rule: rcCoeff_cases) auto
  obtain vec where vec: "s2 (app k) = Some vec" "tid k < length vec"
    using c2 by (auto simp: cached_def split: option.splits if_splits)
  let ?s3 = "s2(app k \<mapsto> vec[tid k := Map.empty])"
  have 3: "clearRCCoeffs k s2 = Inr ?s3"
    using vec by (simp add: clearRCCoeffs_def required_def)
  have 4: "\<forall>e. cached ?s3 (app k) (tid k) e = None"
    using vec by (simp add: cached_def)
  have 5: "\<forall>ap t e. ap \<noteq> app k \<or> t \<noteq> tid k \<longrightarrow> cached ?s3 ap t e = cached s2 ap t e"
    using vec by (auto simp: cached_def)
  have 6: "map_sum id fst (rcCoeff k' ?s3 el) = coeffCalculator k' el"
    using rcCoeff_miss[of ?s3 k' el "vec[tid k := Map.empty]"] 4 vec same by simp
  show ?thesis using 1 2 3 4 5 6 by blast
qed

text \<open>
  In the channel: the first lookup of \<open>cellA\<close> computes \<open>(5, 7)\<close>; after a lookup of
  \<open>cellB\<close>, a lookup of \<open>cellA\<close> by a kernel whose viscosity has become 2 still returns
  \<open>(5, 7)\<close>; after a clear, that kernel's lookup computes \<open>(10, 14)\<close>.
\<close>

theorem rcCoeff_memoizes_witness:
  "\<exists>s1 s2 s3. rcCoeff channel empty_cache cellA = Inr (Vec 5 7 0, s1) \<and>
     rcCoeff channel s1 cellB = Inr (Vec 5 3 0, s2) \<and>
     lookups_only s1 s2 \<and>
     rcCoeff (channel\<lparr>mu := (\<lambda>f. 2)\<rparr>) s2 cellA = Inr (Vec 5 7 0, s2) \<and>
     clearRCCoeffs channel s2 = Inr s3 \<and>
     map_sum id fst (rcCoeff (channel\<lparr>mu := (\<lambda>f. 2)\<rparr>) s3 cellA) = Inr (Vec 10 14 0)"
proof -
  let ?k' = "channel\<lparr>mu := (\<lambda>f. 2)\<rparr>"
  define s1 where "s1 = empty_cache(0 \<mapsto> [[cellA \<mapsto> Vec 5 7 0]])"
  define s2 where "s2 = empty_cache(0 \<mapsto> [[cellA \<mapsto> Vec 5 7 0, cellB \<mapsto> Vec 5 3 0]])"
  have s1: "rcCoeff channel empty_cache cellA = Inr (Vec 5 7 0, s1)"
    and s2: "rcCoeff channel s1 cellB = Inr (Vec 5 3 0, s2)"
    using channel_lookups[of "p_var channel"] by (simp_all add: s1_def s2_def)
  have pass: "lookups_only s1 s2"
    using lookups_only.one_more[OF lookups_only.no_lookup s2] .
  have same: "app ?k' = app channel" "tid ?k' = tid channel"
    by simp_all
  have new: "coeffCalculator ?k' cellA = Inr (Vec 10 14 0)"
    by (simp add: coeffCalculator_def example_defs evaluation)
  from rcCoeff_memoizes[OF s1 pass same]
  obtain s3 where "rcCoeff ?k' s2 cellA = Inr (Vec 5 7 0, s2)"
    and "clearRCCoeffs channel s2 = Inr s3"
    and "map_sum id fst (rcCoeff ?k' s3 cellA) = coeffCalculator ?k' cellA"
    by blast
  then show ?thesis
    using s1 s2 pass new by auto
qed

section \<open>Properties of the momentum interpolator\<close>

text \<open>
  On an interior face \<open>f\<close> the Rhie-Chow branch returns a velocity exactly when the face
  has a neighbour \<open>nb\<close>, the assertions on the neighbour's block and on the coordinate
  systems hold (or the build has none), the coefficient lookups of the two cells return,
  \<open>elem_a\<close> for the face's own cell and then \<open>neighbor_a\<close> for the neighbour, and no
  component of either below the dimension is zero. Otherwise it ends in the fatal error of
  the calculator, in a failed assertion or in a quotient by zero.
\<close>

text \<open>
  Claim C1. On an interior face, the velocity \<open>rc\<close> that the interpolator returns in
  Rhie-Chow mode is, in every component \<open>i\<close> below the dimension, the component of the
  average-mode velocity minus \<open>D\<^sub>f(i) * (grad_p(i) - unc_grad_p(i))\<close>, where \<open>D\<^sub>f\<close> is the
  average interpolation to the face, with the face's geometric weights \<open>gC\<close> and
  \<open>1 - gC\<close>, of the two cells' vectors \<open>D(i) = volume * coord / a(i)\<close>, \<open>coord\<close> being
  the coordinate-system factor at the cell's centroid and \<open>a\<close> the cell's coefficient. The
  other components are those of the average-mode velocity. The statement is an
  equivalence: it also says that this vector is returned whenever the two coefficients are
  there to divide by.
\<close>

theorem rhie_chow_interpolation:
  assumes interior: "\<not> onBoundary k f"
  shows "interpolate k s f RhieChow v = Inr (rc, s2) \<longleftrightarrow>
     (\<exists>nb elem_a neighbor_a s1 avg.
        neighborPtr f = Some nb \<and>
        (NDEBUG k \<or>
           (hasBlocks k (subdomain_id nb) \<and>
            getCoordSystem k (subdomain_id (elem f)) = getCoordSystem k (subdomain_id nb))) \<and>
        rcCoeff k s (elem f) = Inr (elem_a, s1) \<and>
        rcCoeff k s1 nb = Inr (neighbor_a, s2) \<and>
        (\<forall>i<dim k. component elem_a i \<noteq> 0 \<and> component neighbor_a i \<noteq> 0) \<and>
        interpolate k s f Average v = Inr (avg, s) \<and>
        (\<forall>i<3. component rc i =
           (if i < dim k
            then component avg i -
                 (gC f *
                    (elemVolume f *
                       coordTransformFactor k (subdomain_id (elem f)) (elemCentroid f) /
                       component elem_a i) +
                  (1 - gC f) *
                    (neighborVolume f *
                       coordTransformFactor k (subdomain_id nb) (neighborCentroid f) /
                       component neighbor_a i)) *
                 (component (adGradSln (p_var k) f) i -
                  component (uncorrectedAdGradSln (p_var k) f) i)
            else component avg i)))"
  (is "?L \<longleftrightarrow> ?R")
proof
  assume l: ?L
  from interpolate_RhieChow_returns[OF interior l]
  obtain nb elem_a neighbor_a s1 where h: "neighborPtr f = Some nb"
      "NDEBUG k \<or>
        (hasBlocks k (subdomain_id nb) \<and>
         getCoordSystem k (subdomain_id (elem f)) = getCoordSystem k (subdomain_id nb))"
      "rcCoeff k s (elem f) = Inr (elem_a, s1)"
      "rcCoeff k s1 nb = Inr (neighbor_a, s2)"
      "\<forall>i<dim k. component elem_a i \<noteq> 0 \<and> component neighbor_a i \<noteq> 0"
    by blast
  from l interpolate_RhieChow_mode[OF interior h, of v]
  have rc: "rc = sub_range (dim k)
            (\<lambda>i. component
                   (interpolate_Average
                      (set_range (dim k)
                         (\<lambda>i. elemVolume f *
                                coordTransformFactor k (subdomain_id (elem f)) (elemCentroid f) /
                                component elem_a i)
                         zero_vec)
                      (set_range (dim k)
                         (\<lambda>i. neighborVolume f *
                                coordTransformFactor k (subdomain_id nb) (neighborCentroid f) /
                                component neighbor_a i)
                         zero_vec)
                      f True) i *
                 (component (adGradSln (p_var k) f) i -
                  component (uncorrectedAdGradSln (p_var k) f) i))
            (interpolate_Average (vel_elem_face k f) (vel_neighbor_face k f) f True)"
    by simp
  show ?R
    apply (rule exI[of _ nb], rule exI[of _ elem_a], rule exI[of _ neighbor_a],
        rule exI[of _ s1],
        rule exI[of _ "interpolate_Average (vel_elem_face k f) (vel_neighbor_face k f) f True"])
    using h
    by (simp add: interpolate_Average_mode[OF interior] rc component_sub_range
        component_interpolate_Average component_set_range zero_vec_def)
next
  assume ?R
  then obtain nb elem_a neighbor_a s1 avg where h: "neighborPtr f = Some nb"
      "NDEBUG k \<or>
        (hasBlocks k (subdomain_id nb) \<and>
         getCoordSystem k (subdomain_id (elem f)) = getCoordSystem k (subdomain_id nb))"
      "rcCoeff k s (elem f) = Inr (elem_a, s1)"
      "rcCoeff k s1 nb = Inr (neighbor_a, s2)"
      "\<forall>i<dim k. component elem_a i \<noteq> 0 \<and> component neighbor_a i \<noteq> 0"
    and avg: "interpolate k s f Average v = Inr (avg, s)"
    and comps: "\<forall>i<3. component rc i =
           (if i < dim k
            then component avg i -
                 (gC f *
                    (elemVolume f *
                       coordTransformFactor k (subdomain_id (elem f)) (elemCentroid f) /
                       component elem_a i) +
                  (1 - gC f) *
                    (neighborVolume f *
                       coordTransformFactor k (subdomain_id nb) (neighborCentroid f) /
                       component neighbor_a i)) *
                 (component (adGradSln (p_var k) f) i -
                  component (uncorrectedAdGradSln (p_var k) f) i)
            else component avg i)"
    by blast
  have avg_eq: "avg = interpolate_Average (vel_elem_face k f) (vel_neighbor_face k f) f True"
    using avg by (simp add: interpolate_Average_mode[OF interior])
  have "rc = sub_range (dim k)
            (\<lambda>i. component
                   (interpolate_Average
                      (set_range (dim k)
                         (\<lambda>i. elemVolume f *
                                coordTransformFactor k (subdomain_id (elem f)) (elemCentroid f) /
                                component elem_a i)
                         zero_vec)
                      (set_range (dim k)
                         (\<lambda>i. neighborVolume f *
                                coordTransformFactor k (subdomain_id nb) (neighborCentroid f) /
                                component neighbor_a i)
                         zero_vec)
                      f True) i *
                 (component (adGradSln (p_var k) f) i -
                  component (uncorrectedAdGradSln (p_var k) f) i))
            (interpolate_Average (vel_elem_face k f) (vel_neighbor_face k f) f True)"
    by (rule vec_eqI)
      (simp add: comps avg_eq component_sub_range component_interpolate_Average
        component_set_range zero_vec_def)
  then show ?L
    by (simp add: interpolate_RhieChow_mode[OF interior h, of v])
qed

text \<open>
  In the channel the face between the cells has the coefficients \<open>(5, 7)\<close> and \<open>(5, 3)\<close>,
  volumes 4 and the weight \<open>1/2\<close>, so \<open>D\<^sub>f = (4/5, 20/21)\<close>; the gradients differ by
  \<open>(2, 1)\<close> and the average velocity is \<open>(1, 0)\<close>.
\<close>

theorem rhie_chow_interpolation_witness:
  "\<not> onBoundary channel faceAB \<and>
   (\<exists>s1 s2.
      rcCoeff channel empty_cache (elem faceAB) = Inr (Vec 5 7 0, s1) \<and>
      rcCoeff channel s1 cellB = Inr (Vec 5 3 0, s2) \<and>
      interpolate channel empty_cache faceAB Average zero_vec = Inr (Vec 1 0 0, empty_cache) \<and>
      interpolate channel empty_cache faceAB RhieChow zero_vec
        = Inr (Vec (- 3 / 5) (- 20 / 21) 0, s2))"
proof -
  define s1 where "s1 = empty_cache(0 \<mapsto> [[cellA \<mapsto> Vec 5 7 0]])"
  define s2 where "s2 = empty_cache(0 \<mapsto> [[cellA \<mapsto> Vec 5 7 0, cellB \<mapsto> Vec 5 3 0]])"
  have s1: "rcCoeff channel empty_cache cellA = Inr (Vec 5 7 0, s1)"
    and s2: "rcCoeff channel s1 cellB = Inr (Vec 5 3 0, s2)"
    using channel_lookups[of "p_var channel"] by (simp_all add: s1_def s2_def)
  have el: "elem faceAB = cellA"
    by (simp add: example_defs)
  have h1: "\<not> onBoundary channel faceAB"
    by (simp add: example_defs)
  have h2: "neighborPtr faceAB = Some cellB"
    by (simp add: example_defs)
  have h3: "NDEBUG channel \<or>
      (hasBlocks channel (subdomain_id cellB) \<and>
       getCoordSystem channel (subdomain_id (elem faceAB)) =
       getCoordSystem channel (subdomain_id cellB))"
    by (simp add: example_defs)
  have h4: "rcCoeff channel empty_cache (elem faceAB) = Inr (Vec 5 7 0, s1)"
    using s1 el by simp
  have h6: "\<forall>i<dim channel. component (Vec 5 7 0) i \<noteq> 0 \<and> component (Vec 5 3 0) i \<noteq> 0"
    by (simp add: example_defs)
  have avg: "interpolate channel empty_cache faceAB Average zero_vec =
      Inr (Vec 1 0 0, empty_cache)"
    by (simp add: interpolate_Average_mode[OF h1]) (simp add: example_defs evaluation)
  have comps: "\<forall>i<3. component (Vec (- 3 / 5) (- 20 / 21) 0) i =
        (if i < dim channel
         then component (Vec 1 0 0) i -
              (gC faceAB *
                 (elemVolume faceAB *
                    coordTransformFactor channel (subdomain_id (elem faceAB)) (elemCentroid faceAB) /
                    component (Vec 5 7 0) i) +
               (1 - gC faceAB) *
                 (neighborVolume faceAB *
                    coordTransformFactor channel (subdomain_id cellB) (neighborCentroid faceAB) /
                    component (Vec 5 3 0) i)) *
              (component (adGradSln (p_var channel) faceAB) i -
               component (uncorrectedAdGradSln (p_var channel) faceAB) i)
         else component (Vec 1 0 0) i)"
  proof (intro allI impI)
    fix i :: nat
    assume "i < 3"
    then have "i = 0 \<or> i = 1 \<or> i = 2" by auto
    then show "component (Vec (- 3 / 5) (- 20 / 21) 0) i =
        (if i < dim channel
         then component (Vec 1 0 0) i -
              (gC faceAB *
                 (elemVolume faceAB *
                    coordTransformFactor channel (subdomain_id (elem faceAB)) (elemCentroid faceAB) /
                    component (Vec 5 7 0) i) +
               (1 - gC faceAB) *
                 (neighborVolume faceAB *
                    coordTransformFactor channel (subdomain_id cellB) (neighborCentroid faceAB) /
                    component (Vec 5 3 0) i)) *
              (component (adGradSln (p_var channel) faceAB) i -
               component (uncorrectedAdGradSln (p_var channel) faceAB) i)
         else component (Vec 1 0 0) i)"
      by (auto simp: example_defs)
  qed
  have "interpolate channel empty_cache faceAB RhieChow zero_vec
      = Inr (Vec (- 3 / 5) (- 20 / 21) 0, s2)"
    using rhie_chow_interpolation[OF h1, of empty_cache zero_vec "Vec (- 3 / 5) (- 20 / 21) 0" s2]
      h2 h3 h4 s2 h6 avg comps
    by blast
  then show ?thesis
    using h1 h4 s2 avg by blast
qed

text \<open>
  Claim C9, as the code has it. On an interior face where the corrected and the uncorrected
  pressure gradient are the same vector, and where the Rhie-Chow branch has its two
  coefficients, none of them zero below the dimension, the interpolator returns in
  Rhie-Chow mode exactly the velocity it returns in average mode.
\<close>

theorem rhie_chow_consistency:
  assumes interior: "\<not> onBoundary k f"
    and nb: "neighborPtr f = Some nb"
    and asserts: "NDEBUG k \<or>
        (hasBlocks k (subdomain_id nb) \<and>
         getCoordSystem k (subdomain_id (elem f)) = getCoordSystem k (subdomain_id nb))"
    and ea: "rcCoeff k s (elem f) = Inr (elem_a, s1)"
    and na: "rcCoeff k s1 nb = Inr (neighbor_a, s2)"
    and nz: "\<forall>i<dim k. component elem_a i \<noteq> 0 \<and> component neighbor_a i \<noteq> 0"
    and grads: "adGradSln (p_var k) f = uncorrectedAdGradSln (p_var k) f"
  shows "\<exists>r. interpolate k s f RhieChow v = Inr (r, s2) \<and>
     interpolate k s f Average v = Inr (r, s)"
proof -
  let ?avg = "interpolate_Average (vel_elem_face k f) (vel_neighbor_face k f) f True"
  have "sub_range (dim k)
          (\<lambda>i. g i * (component (adGradSln (p_var k) f) i -
                       component (uncorrectedAdGradSln (p_var k) f) i)) ?avg = ?avg" for g
    by (rule vec_eqI) (simp add: component_sub_range grads)
  then show ?thesis
    by (simp add: interpolate_Average_mode[OF interior]
      interpolate_RhieChow_mode[OF interior nb asserts ea na nz])
qed

text \<open>
  In the channel with a pressure whose two face gradients are both \<open>(1, 1)\<close>, both modes
  return \<open>(1, 0)\<close> on the face between the cells.
\<close>

theorem rhie_chow_consistency_witness:
  "\<not> onBoundary linear_pressure_channel faceAB \<and> neighborPtr faceAB = Some cellB \<and>
   adGradSln (p_var linear_pressure_channel) faceAB =
     uncorrectedAdGradSln (p_var linear_pressure_channel) faceAB \<and>
   (\<exists>s1 s2.
      rcCoeff linear_pressure_channel empty_cache (elem faceAB) = Inr (Vec 5 7 0, s1) \<and>
      rcCoeff linear_pressure_channel s1 cellB = Inr (Vec 5 3 0, s2) \<and>
      interpolate linear_pressure_channel empty_cache faceAB RhieChow zero_vec
        = Inr (Vec 1 0 0, s2) \<and>
      interpolate linear_pressure_channel empty_cache faceAB Average zero_vec
        = Inr (Vec 1 0 0, empty_cache))"
proof -
  let ?k = linear_pressure_channel
  define s1 where "s1 = empty_cache(0 \<mapsto> [[cellA \<mapsto> Vec 5 7 0]])"
  define s2 where "s2 = empty_cache(0 \<mapsto> [[cellA \<mapsto> Vec 5 7 0, cellB \<mapsto> Vec 5 3 0]])"
  have s1: "rcCoeff ?k empty_cache cellA = Inr (Vec 5 7 0, s1)"
    and s2: "rcCoeff ?k s1 cellB = Inr (Vec 5 3 0, s2)"
    unfolding linear_pressure_channel_def s1_def s2_def by (rule channel_lookups)+
  have el: "elem faceAB = cellA"
    by (simp add: example_defs)
  have h1: "\<not> onBoundary ?k faceAB"
    by (simp add: example_defs)
  have h2: "neighborPtr faceAB = Some cellB"
    by (simp add: example_defs)
  have h3: "NDEBUG ?k \<or>
      (hasBlocks ?k (subdomain_id cellB) \<and>
       getCoordSystem ?k (subdomain_id (elem faceAB)) = getCoordSystem ?k (subdomain_id cellB))"
    by (simp add: example_defs)
  have h4: "rcCoeff ?k empty_cache (elem faceAB) = Inr (Vec 5 7 0, s1)"
    using s1 el by simp
  have h6: "\<forall>i<dim ?k. component (Vec 5 7 0) i \<noteq> 0 \<and> component (Vec 5 3 0) i \<noteq> 0"
    by (simp add: example_defs)
  have h7: "adGradSln (p_var ?k) faceAB = uncorrectedAdGradSln (p_var ?k) faceAB"
    by (simp add: example_defs)
  have avg: "interpolate ?k empty_cache faceAB Average zero_vec = Inr (Vec 1 0 0, empty_cache)"
    by (simp add: interpolate_Average_mode[OF h1]) (simp add: example_defs evaluation)
  from rhie_chow_consistency[OF h1 h2 h3 h4 s2 h6 h7, of zero_vec]
  have "interpolate ?k empty_cache faceAB RhieChow zero_vec = Inr (Vec 1 0 0, s2)"
    unfolding avg by auto
  then show ?thesis
    using h1 h2 h4 h7 s2 avg by blast
qed

text \<open>
  The claim as the specification states it asks for nothing but equal gradients. In the
  channel with equal gradients and no viscosity, the advective terms of the inlet and of the
  interior face cancel in \<open>cellA\<close>, whose coefficient is zero. Average mode returns
  \<open>(1, 0)\<close>; Rhie-Chow mode returns no velocity: a debug build fails the assertion that
  guards the division, any other build divides by zero.
\<close>

theorem rhie_chow_consistency_counterexample:
  "\<not> onBoundary inviscid_channel faceAB \<and>
   adGradSln (p_var inviscid_channel) faceAB = uncorrectedAdGradSln (p_var inviscid_channel) faceAB \<and>
   coeffCalculator inviscid_channel cellA = Inr (Vec 0 0 0) \<and>
   interpolate inviscid_channel empty_cache faceAB Average zero_vec
     = Inr (Vec 1 0 0, empty_cache) \<and>
   interpolate inviscid_channel empty_cache faceAB RhieChow zero_vec
     = Inl (AssertionFailure NotDividingByZero) \<and>
   interpolate (inviscid_channel\<lparr>NDEBUG := True\<rparr>) empty_cache faceAB RhieChow zero_vec
     = Inl (Undefined QuotientByZero)"
proof -
  have c: "coeffCalculator (inviscid_channel\<lparr>NDEBUG := d\<rparr>) cellA = Inr (Vec 0 0 0)" for d
    by (simp add: coeffCalculator_def inviscid_channel_def example_defs evaluation)
  have c': "coeffCalculator inviscid_channel cellA = Inr (Vec 0 0 0)"
    using c[of False] by (simp add: inviscid_channel_def example_defs)
  have ids: "app (inviscid_channel\<lparr>NDEBUG := d\<rparr>) = 0" "tid (inviscid_channel\<lparr>NDEBUG := d\<rparr>) = 0"
    for d
    by (simp_all add: inviscid_channel_def example_defs)
  have l: "rcCoeff (inviscid_channel\<lparr>NDEBUG := d\<rparr>) empty_cache cellA =
      Inr (Vec 0 0 0, empty_cache(0 \<mapsto> [[cellA \<mapsto> Vec 0 0 0]]))" for d
    by (simp add: rcCoeff_def c ids empty_cache_def required_def emplace_def mooseAssert_def
        Let_def)
  have l': "rcCoeff inviscid_channel empty_cache cellA =
      Inr (Vec 0 0 0, empty_cache(0 \<mapsto> [[cellA \<mapsto> Vec 0 0 0]]))"
    using l[of False] by (simp add: inviscid_channel_def example_defs)
  have f: "elem faceAB = cellA" "neighborPtr faceAB = Some cellB"
    by (simp_all add: example_defs)
  have k: "\<not> onBoundary (inviscid_channel\<lparr>NDEBUG := d\<rparr>) faceAB"
    "hasBlocks (inviscid_channel\<lparr>NDEBUG := d\<rparr>) b"
    "getCoordSystem (inviscid_channel\<lparr>NDEBUG := d\<rparr>) b = COORD_XYZ"
    "dim (inviscid_channel\<lparr>NDEBUG := d\<rparr>) = 2"
    "\<not> onBoundary inviscid_channel faceAB"
    "hasBlocks inviscid_channel b"
    "getCoordSystem inviscid_channel b = COORD_XYZ"
    "dim inviscid_channel = 2"
    "\<not> NDEBUG inviscid_channel"
    "adGradSln (p_var inviscid_channel) faceAB = uncorrectedAdGradSln (p_var inviscid_channel) faceAB"
    for d b
    by (simp_all add: inviscid_channel_def example_defs)
  have avg: "interpolate inviscid_channel empty_cache faceAB Average zero_vec
     = Inr (Vec 1 0 0, empty_cache)"
    by (simp add: interpolate_Average_mode[OF k(5)])
      (simp add: inviscid_channel_def example_defs evaluation)
  have dbg: "interpolate inviscid_channel empty_cache faceAB RhieChow zero_vec
     = Inl (AssertionFailure NotDividingByZero)"
    by (simp add: interpolate_def Let_def f l' k mooseAssert_def required_def violated_def
        numeral_2_eq_2 upt_rec)
  have rel: "interpolate (inviscid_channel\<lparr>NDEBUG := True\<rparr>) empty_cache faceAB RhieChow zero_vec
     = Inl (Undefined QuotientByZero)"
    by (simp add: interpolate_def Let_def f l k mooseAssert_def required_def violated_def
        numeral_2_eq_2 upt_rec)
  show ?thesis
    using k(5) k(10) c' avg dbg rel by blast
qed

section \<open>Properties of the skip predicate and of the classifier\<close>




text \<open>
  Claim C6. \<open>flow_bcs\<close> are the flow conditions active on the boundary. With none, the
  classifier leaves its sets as they are. With some, and unless a debug build meets a mix,
  the boundary is put among the flow boundaries (and among all boundaries); it is also put
  among the fully-developed-flow boundaries if every flow condition on it is fully
  developed, and that set is left as it is if none is. A debug build that finds both a
  fully developed and another flow condition on the boundary fails an assertion.
\<close>

theorem setupFlowBoundaries_classifies:
  assumes q: "flow_bcs = queryInto wh bnd_id AttribFlow"
  shows "(flow_bcs = [] \<longrightarrow> setupFlowBoundaries k wh bnd_id = Inr k) \<and>
     (flow_bcs \<noteq> [] \<and>
      (NDEBUG k \<or> (\<forall>bc\<in>set flow_bcs. bc = INSFVFullyDevelopedFlowBC) \<or>
       (\<forall>bc\<in>set flow_bcs. bc \<noteq> INSFVFullyDevelopedFlowBC)) \<longrightarrow>
      (\<exists>k'. setupFlowBoundaries k wh bnd_id = Inr k' \<and>
         bnd_id \<in> flow_boundaries k' \<and> bnd_id \<in> all_boundaries k' \<and>
         ((\<forall>bc\<in>set flow_bcs. bc = INSFVFullyDevelopedFlowBC) \<longrightarrow>
            bnd_id \<in> fully_developed_flow_boundaries k') \<and>
         ((\<forall>bc\<in>set flow_bcs. bc \<noteq> INSFVFullyDevelopedFlowBC) \<longrightarrow>
            fully_developed_flow_boundaries k' = fully_developed_flow_boundaries k))) \<and>
     (\<not> NDEBUG k \<and> (\<exists>bc\<in>set flow_bcs. bc = INSFVFullyDevelopedFlowBC) \<and>
      (\<exists>bc\<in>set flow_bcs. bc \<noteq> INSFVFullyDevelopedFlowBC) \<longrightarrow>
      (\<exists>a. setupFlowBoundaries k wh bnd_id = Inl (AssertionFailure a)))"
proof -
  have hd_in: "flow_bcs \<noteq> [] \<Longrightarrow> hd flow_bcs \<in> set flow_bcs" by simp
  show ?thesis
    using hd_in unfolding setupFlowBoundaries_def Let_def q[symmetric] assert_each_eq
    by auto
qed

text \<open>
  Boundary 5 with two fully developed outlets and a wall condition becomes a flow boundary
  and a fully-developed-flow boundary; with a fully developed and another flow condition,
  the debug build fails the assertion.
\<close>

theorem setupFlowBoundaries_classifies_witness:
  "queryInto outlet_warehouse 5 AttribFlow = [INSFVFullyDevelopedFlowBC, INSFVFullyDevelopedFlowBC] \<and>
   (\<exists>k'. setupFlowBoundaries channel outlet_warehouse 5 = Inr k' \<and>
      5 \<in> flow_boundaries k' \<and> 5 \<in> all_boundaries k' \<and>
      5 \<in> fully_developed_flow_boundaries k') \<and>
   queryInto mixed_warehouse 5 AttribFlow = [INSFVFullyDevelopedFlowBC, INSFVFlowBC] \<and>
   \<not> NDEBUG channel \<and>
   (\<exists>a. setupFlowBoundaries channel mixed_warehouse 5 = Inl (AssertionFailure a))"
proof -
  have q1: "queryInto outlet_warehouse 5 AttribFlow =
      [INSFVFullyDevelopedFlowBC, INSFVFullyDevelopedFlowBC]"
    by (simp add: queryInto_def outlet_warehouse_def)
  have q2: "queryInto mixed_warehouse 5 AttribFlow = [INSFVFullyDevelopedFlowBC, INSFVFlowBC]"
    by (simp add: queryInto_def mixed_warehouse_def)
  have d: "\<not> NDEBUG channel"
    by (simp add: example_defs)
  show ?thesis
    using setupFlowBoundaries_classifies[OF q1[symmetric], of channel]
      setupFlowBoundaries_classifies[OF q2[symmetric], of channel] q1 q2 d
    by auto
qed

end
